theory Spec2Isabelle
  imports Complex_Main
begin

section \<open>Raw store and deduplicated ingestion\<close>

text \<open>
  Calendar dates are day numbers (\<open>int\<close>); \<open>timedelta(days=1)\<close> is \<open>+ 1\<close>.
  Stored \<open>DECIMAL\<close> values are finite and modelled as \<open>real\<close>; a nullable column is
  an \<open>option\<close>. The columns \<open>id\<close> and \<open>created_at\<close> of the raw tables are
  filled by the database and read by none of the functions below; they are left out.
\<close>

record raw_petrol_price =
  rp_date :: int
  rp_petrol_price :: real
  rp_source :: string

record raw_exogenous_data =
  rx_date :: int
  rx_crude_oil_price :: "real option"
  rx_inr_usd :: "real option"
  rx_source :: string

record raw_store =
  raw_petrol_prices :: "raw_petrol_price list"
  raw_exogenous :: "raw_exogenous_data list"

text \<open>
  \<open>DataIngestionService.ingest_petrol_price\<close>: the session looks the date up
  (\<open>filter_by(date=date).first()\<close>); an existing row returns \<open>False\<close> and the session
  commits nothing; otherwise the new row is added and committed and \<open>True\<close> is returned.
  The price is a valid decimal and the database answers, so the \<open>except\<close> branch
  (which also returns \<open>False\<close>) is not taken.
\<close>

definition ingest_petrol_price ::
    "raw_store \<Rightarrow> int \<Rightarrow> real \<Rightarrow> string \<Rightarrow> bool \<times> raw_store" where
  "ingest_petrol_price db date price source =
     (case find (\<lambda>r. rp_date r = date) (raw_petrol_prices db) of
        Some existing \<Rightarrow> (False, db)
      | None \<Rightarrow>
          (True, db\<lparr>raw_petrol_prices := raw_petrol_prices db @
             [\<lparr>rp_date = date, rp_petrol_price = price, rp_source = source\<rparr>]\<rparr>))"

text \<open>
  \<open>DataIngestionService.ingest_from_dataframe\<close> with \<open>data_type='petrol'\<close>: each row
  of the upload is ingested in turn and the inserted and the duplicate rows are counted.
  The source is \<open>row.get('source', 'file_upload')\<close>: \<open>'file_upload'\<close> when the frame
  has no \<open>source\<close> column, else the cell. A null cell is passed on as \<open>None\<close>, for which
  the column default \<open>'web_scraper'\<close> is stored.
\<close>

datatype source_cell = NoSourceColumn | NullSource | SourceTag string

fun stored_source :: "source_cell \<Rightarrow> string" where
  "stored_source NoSourceColumn = ''file_upload''"
| "stored_source NullSource = ''web_scraper''"
| "stored_source (SourceTag src) = src"

record upload_row =
  u_date :: int
  u_petrol_price :: real
  u_source :: source_cell

fun ingest_rows ::
    "raw_store \<Rightarrow> upload_row list \<Rightarrow> nat \<Rightarrow> nat \<Rightarrow> (nat \<times> nat) \<times> raw_store" where
  "ingest_rows db [] inserted_count duplicate_count = ((inserted_count, duplicate_count), db)"
| "ingest_rows db (row # rest) inserted_count duplicate_count =
     (case ingest_petrol_price db (u_date row) (u_petrol_price row)
             (stored_source (u_source row)) of
        (True, db') \<Rightarrow> ingest_rows db' rest (Suc inserted_count) duplicate_count
      | (False, db') \<Rightarrow> ingest_rows db' rest inserted_count (Suc duplicate_count))"

definition ingest_from_dataframe ::
    "raw_store \<Rightarrow> upload_row list \<Rightarrow> (nat \<times> nat \<times> nat) \<times> raw_store" where
  "ingest_from_dataframe db df =
     (case ingest_rows db df 0 0 of
        ((inserted_count, duplicate_count), db') \<Rightarrow>
          ((inserted_count, duplicate_count, length df), db'))"

section \<open>ETL\<close>

text \<open>
  A row of the merged frame. The price and the source tag come from the price table and
  are never null; the two exogenous columns may be null (\<open>None\<close> or NaN, which pandas
  treats alike).
\<close>

record merged_row =
  c_date :: int
  c_petrol_price :: real
  c_source :: string
  c_crude_oil_price :: "real option"
  c_inr_usd :: "real option"

text \<open>\<open>float(v) if v else None\<close> of \<open>RawExogenousData.to_dict\<close>, the float kept as a real.\<close>

definition float_or_none :: "real option \<Rightarrow> real option" where
  "float_or_none v = (case v of None \<Rightarrow> None | Some x \<Rightarrow> if x \<noteq> 0 then Some x else None)"

text \<open>The date filter applies only when both bounds are given (and true).\<close>

definition in_range :: "int option \<Rightarrow> int option \<Rightarrow> int \<Rightarrow> bool" where
  "in_range start_date end_date d =
     (case (start_date, end_date) of
        (Some s, Some e) \<Rightarrow> s \<le> d \<and> d \<le> e
      | _ \<Rightarrow> True)"

definition source_matches :: "string \<Rightarrow> string \<Rightarrow> bool" where
  "source_matches source_filter src =
     (if source_filter = ''yahoo_finance'' then src = ''yahoo_finance''
      else if source_filter = ''custom_csv''
        then src \<in> set [''file_upload'', ''manual'', ''csv_upload'']
      else True)"

text \<open>
  \<open>pd.merge(petrol, macro, on='date', how='left')\<close>: every price row, in order, with
  each exogenous row of its date, or with nulls when there is none.
\<close>

definition left_merge ::
    "raw_petrol_price list \<Rightarrow> raw_exogenous_data list \<Rightarrow> merged_row list" where
  "left_merge petrol macro =
     concat (map (\<lambda>p.
       (case filter (\<lambda>m. rx_date m = rp_date p) macro of
          [] \<Rightarrow> [\<lparr>c_date = rp_date p, c_petrol_price = rp_petrol_price p,
                  c_source = rp_source p, c_crude_oil_price = None, c_inr_usd = None\<rparr>]
        | ms \<Rightarrow> map (\<lambda>m. \<lparr>c_date = rp_date p, c_petrol_price = rp_petrol_price p,
                  c_source = rp_source p,
                  c_crude_oil_price = float_or_none (rx_crude_oil_price m),
                  c_inr_usd = float_or_none (rx_inr_usd m)\<rparr>) ms)) petrol)"

text \<open>
  \<open>ETLPipeline.extract_raw_data\<close>: no price row gives the empty frame; no exogenous
  row gives the price rows with both exogenous columns set to \<open>None\<close>. The queries have
  no \<open>order_by\<close>, so the order of their rows is the engine's; the model takes the order
  of insertion.
\<close>

definition extract_raw_data ::
    "raw_store \<Rightarrow> int option \<Rightarrow> int option \<Rightarrow> string \<Rightarrow> merged_row list" where
  "extract_raw_data db start_date end_date source_filter =
     (let petrol_df = filter (\<lambda>p. in_range start_date end_date (rp_date p)
                                \<and> source_matches source_filter (rp_source p))
                        (raw_petrol_prices db);
          macro_df = filter (\<lambda>m. in_range start_date end_date (rx_date m)
                                \<and> source_matches source_filter (rx_source m))
                        (raw_exogenous db)
      in if petrol_df = [] then []
         else if macro_df \<noteq> [] then left_merge petrol_df macro_df
         else map (\<lambda>p. \<lparr>c_date = rp_date p, c_petrol_price = rp_petrol_price p,
                         c_source = rp_source p, c_crude_oil_price = None,
                         c_inr_usd = None\<rparr>) petrol_df)"

text \<open>\<open>drop_duplicates(subset=['date'], keep='first')\<close>.\<close>

fun drop_duplicates :: "int list \<Rightarrow> merged_row list \<Rightarrow> merged_row list" where
  "drop_duplicates seen [] = []"
| "drop_duplicates seen (r # rs) =
     (if c_date r \<in> set seen then drop_duplicates seen rs
      else r # drop_duplicates (c_date r # seen) rs)"

definition remove_duplicates :: "merged_row list \<Rightarrow> merged_row list" where
  "remove_duplicates df = drop_duplicates [] df"

text \<open>
  \<open>sort_values('date').reset_index(drop=True)\<close>. Rows of equal date keep their order
  here; pandas' default sort promises no order among them.
\<close>

definition standardize_dates :: "merged_row list \<Rightarrow> merged_row list" where
  "standardize_dates df = sort_key c_date df"

text \<open>
  \<open>fillna(method='ffill')\<close>: a null takes the last value above it in its column; a
  null with no value above it stays null. The two arguments are the last values seen.
\<close>

fun ffill :: "real option \<Rightarrow> real option \<Rightarrow> merged_row list \<Rightarrow> merged_row list" where
  "ffill last_crude last_inr [] = []"
| "ffill last_crude last_inr (r # rs) =
     (let crude = (case c_crude_oil_price r of None \<Rightarrow> last_crude | Some v \<Rightarrow> Some v);
          inr = (case c_inr_usd r of None \<Rightarrow> last_inr | Some v \<Rightarrow> Some v)
      in r\<lparr>c_crude_oil_price := crude, c_inr_usd := inr\<rparr> # ffill crude inr rs)"

text \<open>\<open>handle_missing_values(df, method='ffill')\<close> fills forward twice.\<close>

definition handle_missing_values :: "merged_row list \<Rightarrow> merged_row list" where
  "handle_missing_values df = ffill None None (ffill None None df)"

text \<open>\<open>run_etl\<close> with the default \<open>remove_outliers=False\<close>.\<close>

definition run_etl :: "raw_store \<Rightarrow> int option \<Rightarrow> int option \<Rightarrow> string \<Rightarrow> merged_row list"
    where
  "run_etl db start_date end_date source_filter =
     (let df = extract_raw_data db start_date end_date source_filter
      in if df = [] then df
         else handle_missing_values (standardize_dates (remove_duplicates df)))"

section \<open>Feature engineering\<close>

record feature_row =
  f_date :: int
  f_petrol_price :: real
  f_source :: string
  f_crude_oil_price :: "real option"
  f_inr_usd :: "real option"
  f_lag_1 :: "real option"
  f_lag_2 :: "real option"
  f_lag_7 :: "real option"
  f_lag_14 :: "real option"
  f_rolling_7 :: "real option"
  f_target :: "real option"

text \<open>
  \<open>Series.shift(n)\<close> at row \<open>i\<close>: the value \<open>n\<close> rows above (below for a negative
  \<open>n\<close>), NaN when there is no such row.
\<close>

definition shift :: "int \<Rightarrow> real list \<Rightarrow> nat \<Rightarrow> real option" where
  "shift n xs i =
     (let j = int i - n
      in if 0 \<le> j \<and> j < int (length xs) then Some (xs ! nat j) else None)"

text \<open>
  \<open>Series.rolling(window=w).mean()\<close> at row \<open>i\<close>: the mean of the \<open>w\<close> values ending
  at row \<open>i\<close>, NaN while fewer than \<open>w\<close> rows are there.
\<close>

definition rolling_mean :: "nat \<Rightarrow> real list \<Rightarrow> nat \<Rightarrow> real option" where
  "rolling_mean w xs i =
     (if w \<le> i + 1 then Some (sum_list (take w (drop (i + 1 - w) xs)) / real w) else None)"

text \<open>\<open>DataFrame.dropna()\<close> keeps the rows without a null in any column.\<close>

definition no_null :: "feature_row \<Rightarrow> bool" where
  "no_null r \<longleftrightarrow>
     f_crude_oil_price r \<noteq> None \<and> f_inr_usd r \<noteq> None \<and> f_lag_1 r \<noteq> None
     \<and> f_lag_2 r \<noteq> None \<and> f_lag_7 r \<noteq> None \<and> f_lag_14 r \<noteq> None
     \<and> f_rolling_7 r \<noteq> None \<and> f_target r \<noteq> None"

text \<open>
  \<open>FeatureEngineer.create_all_features\<close> with the configured lags \<open>[1, 2, 7, 14]\<close> and
  window \<open>[7]\<close>: sort by date, add the lag columns, the rolling mean and the target
  (the price one row below), then \<open>dropna()\<close>.
\<close>

definition with_features :: "merged_row list \<Rightarrow> feature_row list" where
  "with_features df =
     (let prices = map c_petrol_price df
      in map (\<lambda>i.
           \<lparr>f_date = c_date (df ! i), f_petrol_price = c_petrol_price (df ! i),
            f_source = c_source (df ! i),
            f_crude_oil_price = c_crude_oil_price (df ! i), f_inr_usd = c_inr_usd (df ! i),
            f_lag_1 = shift 1 prices i, f_lag_2 = shift 2 prices i,
            f_lag_7 = shift 7 prices i, f_lag_14 = shift 14 prices i,
            f_rolling_7 = rolling_mean 7 prices i,
            f_target = shift (- 1) prices i\<rparr>) [0..<length df])"

definition create_all_features :: "merged_row list \<Rightarrow> feature_row list" where
  "create_all_features df = filter no_null (with_features (sort_key c_date df))"

section \<open>Python floats\<close>

text \<open>
  A Python \<open>float\<close> is a finite value, an infinity or a NaN. Finite values are idealised
  as reals: the rounding error and the overflow of binary64 arithmetic are not modelled.
  Every comparison with a NaN is false.
\<close>

datatype pyfloat = Fin real | PInf | NInf | NaN

fun pf_lt :: "pyfloat \<Rightarrow> pyfloat \<Rightarrow> bool" where
  "pf_lt (Fin a) (Fin b) = (a < b)"
| "pf_lt (Fin a) PInf = True"
| "pf_lt NInf (Fin b) = True"
| "pf_lt NInf PInf = True"
| "pf_lt _ _ = False"

text \<open>
  The builtins \<open>min(a, b)\<close> and \<open>max(a, b)\<close> keep the first argument unless the second
  is strictly smaller (respectively strictly larger).
\<close>

definition py_min :: "pyfloat \<Rightarrow> pyfloat \<Rightarrow> pyfloat" where
  "py_min a b = (if pf_lt b a then b else a)"

definition py_max :: "pyfloat \<Rightarrow> pyfloat \<Rightarrow> pyfloat" where
  "py_max a b = (if pf_lt a b then b else a)"

text \<open>Truthiness of a float (\<open>if x\<close>): only zero is false; NaN and the infinities are true.\<close>

fun pf_truthy :: "pyfloat \<Rightarrow> bool" where
  "pf_truthy (Fin a) = (a \<noteq> 0)"
| "pf_truthy _ = True"

fun pf_add :: "pyfloat \<Rightarrow> pyfloat \<Rightarrow> pyfloat" where
  "pf_add (Fin a) (Fin b) = Fin (a + b)"
| "pf_add NaN _ = NaN"
| "pf_add _ NaN = NaN"
| "pf_add PInf NInf = NaN"
| "pf_add NInf PInf = NaN"
| "pf_add PInf _ = PInf"
| "pf_add _ PInf = PInf"
| "pf_add NInf _ = NInf"
| "pf_add _ NInf = NInf"

text \<open>
  Product with and quotient by a finite literal \<open>k\<close>. The code multiplies by \<open>6\<close> and
  divides by \<open>7\<close> only, so the \<open>ZeroDivisionError\<close> of \<open>x / 0\<close> never arises.
\<close>

fun pf_times :: "pyfloat \<Rightarrow> real \<Rightarrow> pyfloat" where
  "pf_times (Fin a) k = Fin (a * k)"
| "pf_times NaN k = NaN"
| "pf_times PInf k = (if 0 < k then PInf else if k < 0 then NInf else NaN)"
| "pf_times NInf k = (if 0 < k then NInf else if k < 0 then PInf else NaN)"

fun pf_over :: "pyfloat \<Rightarrow> real \<Rightarrow> pyfloat" where
  "pf_over (Fin a) k = Fin (a / k)"
| "pf_over NaN k = NaN"
| "pf_over PInf k = (if 0 < k then PInf else NInf)"
| "pf_over NInf k = (if 0 < k then NInf else PInf)"

text \<open>
  \<open>round(x, 2)\<close>: the nearest multiple of \<open>1/100\<close>, ties to the even one; an infinity or
  a NaN is returned as it is.
\<close>

definition round_half_even :: "real \<Rightarrow> int" where
  "round_half_even y =
     (let f = \<lfloor>y\<rfloor>; d = y - of_int f
      in if d < 1 / 2 then f else if 1 / 2 < d then f + 1
         else if even f then f else f + 1)"

fun py_round2 :: "pyfloat \<Rightarrow> pyfloat" where
  "py_round2 (Fin a) = Fin (of_int (round_half_even (a * 100)) / 100)"
| "py_round2 x = x"

section \<open>Feature rows and their readback\<close>

text \<open>
  A row of \<open>processed_features\<close>: \<open>petrol_price\<close> is \<open>nullable=False\<close>, the other
  numeric columns are nullable.
\<close>

record processed_feature =
  row_date :: int
  row_petrol_price :: real
  row_lag_1 :: "real option"
  row_lag_2 :: "real option"
  row_lag_7 :: "real option"
  row_lag_14 :: "real option"
  row_rolling_7 :: "real option"
  row_crude_oil_price :: "real option"
  row_inr_usd :: "real option"
  row_target :: "real option"

text \<open>The dictionary \<open>ProcessedFeature.to_dict\<close> returns (without \<open>created_at\<close>).\<close>

record feature_dict =
  d_date :: int
  d_petrol_price :: pyfloat
  d_lag_1 :: "pyfloat option"
  d_lag_2 :: "pyfloat option"
  d_lag_7 :: "pyfloat option"
  d_lag_14 :: "pyfloat option"
  d_rolling_7 :: "pyfloat option"
  d_crude_oil_price :: "pyfloat option"
  d_inr_usd :: "pyfloat option"
  d_target :: "pyfloat option"

text \<open>
  \<open>float(v) if v else None\<close> on a nullable \<open>Decimal\<close>: \<open>None\<close> and a zero are both
  false.
\<close>

definition float_if_truthy :: "real option \<Rightarrow> pyfloat option" where
  "float_if_truthy v =
     (case v of None \<Rightarrow> None | Some x \<Rightarrow> if x \<noteq> 0 then Some (Fin x) else None)"

definition to_dict :: "processed_feature \<Rightarrow> feature_dict" where
  "to_dict r =
     \<lparr>d_date = row_date r,
      d_petrol_price = Fin (row_petrol_price r),
      d_lag_1 = float_if_truthy (row_lag_1 r),
      d_lag_2 = float_if_truthy (row_lag_2 r),
      d_lag_7 = float_if_truthy (row_lag_7 r),
      d_lag_14 = float_if_truthy (row_lag_14 r),
      d_rolling_7 = float_if_truthy (row_rolling_7 r),
      d_crude_oil_price = float_if_truthy (row_crude_oil_price r),
      d_inr_usd = float_if_truthy (row_inr_usd r),
      d_target = float_if_truthy (row_target r)\<rparr>"

text \<open>
  \<open>query.order_by(key.desc()).first()\<close>: a row with the greatest key, \<open>None\<close> on an
  empty table. Among rows with equal keys the engine is free; the model takes the earliest.
\<close>

fun first_desc :: "('a \<Rightarrow> int) \<Rightarrow> 'a list \<Rightarrow> 'a option" where
  "first_desc key [] = None"
| "first_desc key (x # xs) =
     (case first_desc key xs of
        None \<Rightarrow> Some x
      | Some y \<Rightarrow> if key x < key y then Some y else Some x)"

definition get_latest_features :: "processed_feature list \<Rightarrow> feature_dict option" where
  "get_latest_features table =
     (case first_desc row_date table of
        None \<Rightarrow> None
      | Some latest \<Rightarrow> Some (to_dict latest))"

section \<open>Model registry, artifacts and loading\<close>

text \<open>
  A row of \<open>model_registry\<close> (without \<open>id\<close>): the four metrics are nullable columns,
  \<open>created_at\<close> is a timestamp.
\<close>

record model_record =
  mr_model_version :: string
  mr_rmse :: "real option"
  mr_mae :: "real option"
  mr_mape :: "real option"
  mr_r2 :: "real option"
  mr_model_path :: string
  mr_training_samples :: "int option"
  mr_data_source :: string
  mr_created_at :: int

text \<open>
  The scaler's \<open>transform\<close> and the network's \<open>predict\<close> are opaque collaborators: any
  functions on the eight-element input row, with any float as the raw output. A path of
  the file system holds a saved network, a pickled scaler, or nothing.
\<close>

type_synonym scaler = "pyfloat list \<Rightarrow> pyfloat list"
type_synonym keras_model = "pyfloat list \<Rightarrow> pyfloat"

datatype artifact = KerasModel keras_model | PickledScaler scaler

record metrics =
  m_rmse :: "real option"
  m_mae :: "real option"
  m_mape :: "real option"

text \<open>
  \<open>str.replace(old, new)\<close> for a non-empty \<open>old\<close>: every occurrence, left to right,
  without overlap. The counter is the number of characters of a matched occurrence that
  are still to be skipped.
\<close>

fun replace_from :: "string \<Rightarrow> string \<Rightarrow> nat \<Rightarrow> string \<Rightarrow> string" where
  "replace_from old new k [] = []"
| "replace_from old new (Suc k) (c # cs) = replace_from old new k cs"
| "replace_from old new 0 (c # cs) =
     (if take (length old) (c # cs) = old
      then new @ replace_from old new (length old - 1) cs
      else c # replace_from old new 0 cs)"

definition str_replace :: "string \<Rightarrow> string \<Rightarrow> string \<Rightarrow> string" where
  "str_replace old new s = replace_from old new 0 s"

text \<open>
  \<open>keras.models.load_model(path)\<close> and \<open>pickle.load(open(path, 'rb'))\<close>: \<open>None\<close>
  stands for the exception raised on a missing or unreadable file.
\<close>

definition load_model :: "(string \<Rightarrow> artifact option) \<Rightarrow> string \<Rightarrow> keras_model option" where
  "load_model fs path = (case fs path of Some (KerasModel m) \<Rightarrow> Some m | _ \<Rightarrow> None)"

definition pickle_load :: "(string \<Rightarrow> artifact option) \<Rightarrow> string \<Rightarrow> scaler option" where
  "pickle_load fs path = (case fs path of Some (PickledScaler sc) \<Rightarrow> Some sc | _ \<Rightarrow> None)"

text \<open>
  The registry query of \<open>load_model_and_scaler\<close>: the requested version when
  \<open>model_version\<close> is true (a non-empty string), else the most recently created one.
\<close>

definition query_model_record :: "model_record list \<Rightarrow> string option \<Rightarrow> model_record option"
    where
  "query_model_record models model_version =
     (case model_version of
        Some v \<Rightarrow>
          if v \<noteq> [] then find (\<lambda>r. mr_model_version r = v) models
          else first_desc mr_created_at models
      | None \<Rightarrow> first_desc mr_created_at models)"

text \<open>
  \<open>load_model_and_scaler\<close>. A missing record returns the tuple of four \<open>None\<close>s, and
  so does the \<open>except Exception\<close> handler for an exception of either load; the result
  \<open>None\<close> is that tuple.
\<close>

definition load_model_and_scaler ::
    "(string \<Rightarrow> artifact option) \<Rightarrow> model_record list \<Rightarrow> string option
       \<Rightarrow> (keras_model \<times> scaler \<times> string \<times> metrics) option" where
  "load_model_and_scaler fs models model_version =
     (case query_model_record models model_version of
        None \<Rightarrow> None
      | Some model_record \<Rightarrow>
          (let model_path = mr_model_path model_record;
               scaler_path = str_replace ''.h5'' ''_scaler.pkl'' model_path
           in case load_model fs model_path of
                None \<Rightarrow> None
              | Some model \<Rightarrow>
                  (case pickle_load fs scaler_path of
                     None \<Rightarrow> None
                   | Some scaler \<Rightarrow>
                       Some (model, scaler, mr_model_version model_record,
                             \<lparr>m_rmse = mr_rmse model_record, m_mae = mr_mae model_record,
                              m_mape = mr_mape model_record\<rparr>))))"

section \<open>Recursive forecast\<close>

record features =
  petrol_price :: pyfloat
  lag_1 :: pyfloat
  lag_2 :: pyfloat
  lag_7 :: pyfloat
  lag_14 :: pyfloat
  rolling_7 :: pyfloat
  crude_oil_price :: pyfloat
  inr_usd :: pyfloat

record prediction =
  p_date :: int
  predicted_price :: pyfloat

text \<open>\<open>v if v else default\<close> on a dictionary value: \<open>None\<close> and \<open>0.0\<close> are false.\<close>

definition or_default :: "pyfloat option \<Rightarrow> pyfloat \<Rightarrow> pyfloat" where
  "or_default v dflt =
     (case v of None \<Rightarrow> dflt | Some x \<Rightarrow> if pf_truthy x then x else dflt)"

definition seed_features :: "feature_dict \<Rightarrow> features" where
  "seed_features latest =
     \<lparr>petrol_price = d_petrol_price latest,
      lag_1 = or_default (d_lag_1 latest) (d_petrol_price latest),
      lag_2 = or_default (d_lag_2 latest) (d_petrol_price latest),
      lag_7 = or_default (d_lag_7 latest) (d_petrol_price latest),
      lag_14 = or_default (d_lag_14 latest) (d_petrol_price latest),
      rolling_7 = or_default (d_rolling_7 latest) (d_petrol_price latest),
      crude_oil_price = or_default (d_crude_oil_price latest) (Fin 80),
      inr_usd = or_default (d_inr_usd latest) (Fin 83)\<rparr>"

text \<open>The variables the loop of \<open>generate_forecast\<close> changes.\<close>

record loop_state =
  current_features :: features
  current_date :: int
  predictions :: "prediction list"

text \<open>One pass of the loop body; the assignments are taken in the order of the source.\<close>

definition forecast_step :: "scaler \<Rightarrow> keras_model \<Rightarrow> loop_state \<Rightarrow> loop_state" where
  "forecast_step scaler model st =
     (let cf = current_features st;
          X = [petrol_price cf, lag_1 cf, lag_2 cf, lag_7 cf, lag_14 cf, rolling_7 cf,
               crude_oil_price cf, inr_usd cf];
          X_scaled = scaler X;
          pred = model X_scaled;
          pred = py_max (Fin 90) (py_min (Fin 150) pred);
          ps = predictions st @
                 [\<lparr>p_date = current_date st, predicted_price = py_round2 pred\<rparr>];
          cf = cf\<lparr>lag_14 := lag_7 cf\<rparr>;
          cf = cf\<lparr>lag_7 := lag_2 cf\<rparr>;
          cf = cf\<lparr>lag_2 := lag_1 cf\<rparr>;
          cf = cf\<lparr>lag_1 := petrol_price cf\<rparr>;
          cf = cf\<lparr>petrol_price := pred\<rparr>;
          cf = cf\<lparr>rolling_7 := pf_over (pf_add (pf_times (rolling_7 cf) 6) pred) 7\<rparr>
      in \<lparr>current_features = cf, current_date = current_date st + 1, predictions = ps\<rparr>)"

text \<open>\<open>for day in range(n)\<close>: \<open>n\<close> passes of the body.\<close>

fun forecast_loop :: "scaler \<Rightarrow> keras_model \<Rightarrow> nat \<Rightarrow> loop_state \<Rightarrow> loop_state" where
  "forecast_loop scaler model 0 st = st"
| "forecast_loop scaler model (Suc n) st =
     forecast_loop scaler model n (forecast_step scaler model st)"

text \<open>
  The failure results of \<open>generate_forecast\<close>, by their \<open>error\<close> text:
  \<open>NoTrainedModel\<close> is \<open>'No trained model available'\<close>, \<open>NoFeatureData\<close> is
  \<open>'No feature data available'\<close>, \<open>InvalidDateRange\<close> is
  \<open>'End date must be after latest data date'\<close>, \<open>InvalidDateFormat\<close> is
  \<open>'Invalid end date format'\<close>.
\<close>

datatype forecast_error = NoTrainedModel | NoFeatureData | InvalidDateRange | InvalidDateFormat

text \<open>
  The \<open>end_date\<close> argument is a string or a date object. \<open>strptime\<close> is library code:
  the environment gives its result on each string, \<open>None\<close> for \<open>ValueError\<close>.
\<close>

datatype end_date_arg = EndStr string | EndDate int

record forecast_result =
  fr_model_version :: string
  fr_horizon_days :: int
  fr_predictions :: "prediction list"
  fr_metrics :: metrics

record env =
  registry :: "model_record list"
  files :: "string \<Rightarrow> artifact option"
  feature_table :: "processed_feature list"
  today :: int
  strptime :: "string \<Rightarrow> int option"

definition run_forecast ::
    "scaler \<Rightarrow> keras_model \<Rightarrow> string \<Rightarrow> metrics \<Rightarrow> features \<Rightarrow> int \<Rightarrow> int
       \<Rightarrow> forecast_result" where
  "run_forecast scaler model version mets cf start horizon_days =
     (let final = forecast_loop scaler model (nat horizon_days)
                    \<lparr>current_features = cf, current_date = start, predictions = []\<rparr>
      in \<lparr>fr_model_version = version, fr_horizon_days = horizon_days,
          fr_predictions = predictions final, fr_metrics = mets\<rparr>)"

text \<open>\<open>if end_date\<close>: the empty string is false, every date object is true.\<close>

fun end_date_truthy :: "end_date_arg \<Rightarrow> bool" where
  "end_date_truthy (EndStr s) = (s \<noteq> [])"
| "end_date_truthy (EndDate d) = True"

text \<open>
  The conversion to \<open>target_date\<close>: \<open>strptime(end_date, '%Y-%m-%d')\<close> for a string,
  \<open>datetime.combine(end_date, datetime.min.time())\<close> otherwise. Both give midnight of the
  target day, so \<open>delta.days\<close> is the difference of the day numbers.
\<close>

fun target_date_of :: "(string \<Rightarrow> int option) \<Rightarrow> end_date_arg \<Rightarrow> int option" where
  "target_date_of parse (EndStr s) = parse s"
| "target_date_of parse (EndDate d) = Some d"

text \<open>
  \<open>generate_forecast\<close>. The forecast starts tomorrow: \<open>current_date\<close> is today's
  midnight plus one day.
\<close>

definition generate_forecast ::
    "env \<Rightarrow> int \<Rightarrow> string option \<Rightarrow> end_date_arg option \<Rightarrow> forecast_error + forecast_result"
    where
  "generate_forecast e horizon_days model_version end_date =
     (case load_model_and_scaler (files e) (registry e) model_version of
        None \<Rightarrow> Inl NoTrainedModel
      | Some (model, scaler, version, mets) \<Rightarrow>
          (case get_latest_features (feature_table e) of
             None \<Rightarrow> Inl NoFeatureData
           | Some latest \<Rightarrow>
               (let cf = seed_features latest;
                    start = today e + 1
                in case end_date of
                     None \<Rightarrow> Inr (run_forecast scaler model version mets cf start horizon_days)
                   | Some ed \<Rightarrow>
                       if \<not> end_date_truthy ed then
                         Inr (run_forecast scaler model version mets cf start horizon_days)
                       else
                         (case target_date_of (strptime e) ed of
                            None \<Rightarrow> Inl InvalidDateFormat
                          | Some target_date \<Rightarrow>
                              (let horizon_days = target_date - start + 1
                               in if horizon_days \<le> 0 then Inl InvalidDateRange
                                  else Inr (run_forecast scaler model version mets cf start
                                              horizon_days))))))"

section \<open>Prediction service\<close>

record prediction_log =
  pl_horizon_days :: int
  pl_model_version :: string
  pl_predictions :: "prediction list"

text \<open>
  \<open>PredictionService.generate_prediction\<close>: a failed forecast is returned as it is;
  a successful one is logged (with the requested horizon) and returned.
\<close>

definition generate_prediction ::
    "env \<Rightarrow> prediction_log list \<Rightarrow> int \<Rightarrow> string option \<Rightarrow> end_date_arg option
       \<Rightarrow> (forecast_error + forecast_result) \<times> prediction_log list" where
  "generate_prediction e logs horizon_days model_version end_date =
     (case generate_forecast e horizon_days model_version end_date of
        Inl err \<Rightarrow> (Inl err, logs)
      | Inr result \<Rightarrow>
          (Inr result,
           logs @ [\<lparr>pl_horizon_days = horizon_days,
                    pl_model_version = fr_model_version result,
                    pl_predictions = fr_predictions result\<rparr>]))"

section \<open>Best model by metric\<close>

text \<open>The dictionary \<open>ModelRegistry.to_dict\<close> returns (without \<open>id\<close>).\<close>

record model_dict =
  md_model_version :: string
  md_rmse :: "pyfloat option"
  md_mae :: "pyfloat option"
  md_mape :: "pyfloat option"
  md_r2 :: "pyfloat option"
  md_model_path :: string
  md_training_samples :: "int option"
  md_data_source :: string
  md_created_at :: int

definition model_to_dict :: "model_record \<Rightarrow> model_dict" where
  "model_to_dict r =
     \<lparr>md_model_version = mr_model_version r,
      md_rmse = float_if_truthy (mr_rmse r),
      md_mae = float_if_truthy (mr_mae r),
      md_mape = float_if_truthy (mr_mape r),
      md_r2 = float_if_truthy (mr_r2 r),
      md_model_path = mr_model_path r,
      md_training_samples = mr_training_samples r,
      md_data_source = mr_data_source r,
      md_created_at = mr_created_at r\<rparr>"

text \<open>
  \<open>query.order_by(column.asc()).first()\<close> on a nullable column. Where the engine sorts
  \<open>NULL\<close> is its own choice: SQLite (the default \<open>DB_TYPE\<close>) and MySQL sort it before
  every value, PostgreSQL after; \<open>nulls_first\<close> says which. Among equal keys the model
  takes the earliest row.
\<close>

fun key_le :: "bool \<Rightarrow> real option \<Rightarrow> real option \<Rightarrow> bool" where
  "key_le nulls_first None None = True"
| "key_le nulls_first None (Some b) = nulls_first"
| "key_le nulls_first (Some a) None = (\<not> nulls_first)"
| "key_le nulls_first (Some a) (Some b) = (a \<le> b)"

fun first_asc :: "bool \<Rightarrow> ('a \<Rightarrow> real option) \<Rightarrow> 'a list \<Rightarrow> 'a option" where
  "first_asc nulls_first key [] = None"
| "first_asc nulls_first key (x # xs) =
     (case first_asc nulls_first key xs of
        None \<Rightarrow> Some x
      | Some y \<Rightarrow> if key_le nulls_first (key x) (key y) then Some x else Some y)"

datatype log_line = LogInfo string | LogError string

text \<open>
  \<open>ModelRegistryManager.get_best_model\<close>, with the lines it writes to the log. An
  unknown metric is logged as an error and \<open>None\<close> is returned; an empty registry
  returns \<open>None\<close> and logs nothing.
\<close>

definition best_answer :: "string \<Rightarrow> model_record option \<Rightarrow> model_dict option \<times> log_line list"
    where
  "best_answer metric model =
     (case model of
        Some m \<Rightarrow>
          (Some (model_to_dict m),
           [LogInfo (''Best model by '' @ metric @ '': '' @ mr_model_version m)])
      | None \<Rightarrow> (None, []))"

definition get_best_model ::
    "bool \<Rightarrow> model_record list \<Rightarrow> string \<Rightarrow> model_dict option \<times> log_line list" where
  "get_best_model nulls_first models metric =
     (if metric = ''rmse'' then best_answer metric (first_asc nulls_first mr_rmse models)
      else if metric = ''mae'' then best_answer metric (first_asc nulls_first mr_mae models)
      else if metric = ''mape'' then best_answer metric (first_asc nulls_first mr_mape models)
      else (None, [LogError (''Invalid metric: '' @ metric)]))"

section \<open>Stored zeros\<close>

text \<open>
  The row with every zero of a nullable column replaced by \<open>NULL\<close>; it serves to state
  that the forecast cannot tell a stored zero from a missing value.
\<close>

definition null_if_zero :: "real option \<Rightarrow> real option" where
  "null_if_zero v = (if v = Some 0 then None else v)"

definition zeros_as_null :: "processed_feature \<Rightarrow> processed_feature" where
  "zeros_as_null r =
     r\<lparr>row_lag_1 := null_if_zero (row_lag_1 r),
       row_lag_2 := null_if_zero (row_lag_2 r),
       row_lag_7 := null_if_zero (row_lag_7 r),
       row_lag_14 := null_if_zero (row_lag_14 r),
       row_rolling_7 := null_if_zero (row_rolling_7 r),
       row_crude_oil_price := null_if_zero (row_crude_oil_price r),
       row_inr_usd := null_if_zero (row_inr_usd r),
       row_target := null_if_zero (row_target r)\<rparr>"

section \<open>Example data\<close>

text \<open>
  A registry with one version, its two artifact files, and one feature row. The example
  network lowers the first input by \<open>4\<close>; the example scaler is the identity.
\<close>

definition demo_model :: keras_model where
  "demo_model X = (case X of [] \<Rightarrow> NaN | x # rest \<Rightarrow> pf_add x (Fin (- 4)))"

definition demo_scaler :: scaler where
  "demo_scaler X = X"

definition demo_version :: "string \<Rightarrow> real \<Rightarrow> int \<Rightarrow> model_record" where
  "demo_version v rmse created =
     \<lparr>mr_model_version = v, mr_rmse = Some rmse, mr_mae = Some 1, mr_mape = Some 1,
      mr_r2 = Some (9 / 10), mr_model_path = ''saved_models/model_'' @ v @ ''.h5'',
      mr_training_samples = Some 100, mr_data_source = ''combined'',
      mr_created_at = created\<rparr>"

definition demo_files :: "string \<Rightarrow> artifact option" where
  "demo_files path =
     (if path = ''saved_models/model_v1.h5'' then Some (KerasModel demo_model)
      else if path = ''saved_models/model_v1_scaler.pkl'' then Some (PickledScaler demo_scaler)
      else None)"

definition demo_row :: processed_feature where
  "demo_row =
     \<lparr>row_date = 40, row_petrol_price = 100, row_lag_1 = Some 99, row_lag_2 = Some 98,
      row_lag_7 = Some 97, row_lag_14 = Some 96, row_rolling_7 = Some 98,
      row_crude_oil_price = None, row_inr_usd = Some 84, row_target = Some 101\<rparr>"

definition demo_files_without_scaler :: "string \<Rightarrow> artifact option" where
  "demo_files_without_scaler path =
     (if path = ''saved_models/model_v1.h5'' then Some (KerasModel demo_model) else None)"

definition demo_strptime :: "string \<Rightarrow> int option" where
  "demo_strptime s =
     (if s = ''2026-11-03'' then Some 100 else if s = ''2026-11-04'' then Some 101
      else if s = ''2026-11-06'' then Some 103 else None)"

definition demo_env :: env where
  "demo_env =
     \<lparr>registry = [demo_version ''v1'' 2 10], files = demo_files,
      feature_table = [demo_row], today = 100, strptime = demo_strptime\<rparr>"

text \<open>Twenty consecutive daily prices (days 1 to 20), and a store with nothing in it.\<close>

definition twenty_days :: "upload_row list" where
  "twenty_days =
     map (\<lambda>i. \<lparr>u_date = 1 + int i, u_petrol_price = 100 + real i / 10,
                 u_source = NoSourceColumn\<rparr>)
       [0..<20]"

definition empty_store :: raw_store where
  "empty_store = \<lparr>raw_petrol_prices = [], raw_exogenous = []\<rparr>"

section \<open>Properties\<close>

subsection \<open>Ingestion\<close>

lemma find_None_filter: "find P xs = None \<Longrightarrow> filter P xs = []"
  by (induction xs) (auto split: if_splits)

lemma find_fresh_date:
  "date \<notin> rp_date ` set rows \<Longrightarrow> find (\<lambda>r. rp_date r = date) rows = None"
  by (induction rows) auto

text \<open>
  C6. Starting from a store that holds no price for the date, ingesting a price point for
  that date twice returns \<open>True\<close> and then \<open>False\<close>; the second call leaves the store as
  the first one left it (no insert, no update), whatever price and source it carries; and
  the store then holds exactly one row for the date.
\<close>

theorem ingest_petrol_price_twice:
  assumes fresh: "date \<notin> rp_date ` set (raw_petrol_prices db)"
  shows "fst (ingest_petrol_price db date price source) = True
       \<and> fst (ingest_petrol_price (snd (ingest_petrol_price db date price source))
                 date price' source') = False
       \<and> snd (ingest_petrol_price (snd (ingest_petrol_price db date price source))
                 date price' source') = snd (ingest_petrol_price db date price source)
       \<and> length (filter (\<lambda>r. rp_date r = date)
            (raw_petrol_prices (snd (ingest_petrol_price
               (snd (ingest_petrol_price db date price source)) date price' source')))) = 1"
proof -
  let ?rows = "raw_petrol_prices db"
  have none: "find (\<lambda>r. rp_date r = date) ?rows = None"
    using fresh by (rule find_fresh_date)
  have first: "ingest_petrol_price db date price source =
      (True, db\<lparr>raw_petrol_prices := ?rows @
         [\<lparr>rp_date = date, rp_petrol_price = price, rp_source = source\<rparr>]\<rparr>)"
    by (simp add: ingest_petrol_price_def none)
  have hit: "find (\<lambda>r. rp_date r = date) (?rows @
         [\<lparr>rp_date = date, rp_petrol_price = price, rp_source = source\<rparr>]) \<noteq> None"
    by (auto simp: find_None_iff)
  have second: "ingest_petrol_price (snd (ingest_petrol_price db date price source))
       date price' source' = (False, snd (ingest_petrol_price db date price source))"
    using hit by (auto simp: first ingest_petrol_price_def split: option.splits)
  have count: "length (filter (\<lambda>r. rp_date r = date) (?rows @
         [\<lparr>rp_date = date, rp_petrol_price = price, rp_source = source\<rparr>])) = 1"
    by (simp add: find_None_filter [OF none])
  show ?thesis
    unfolding second using count by (simp add: first)
qed

theorem ingest_petrol_price_twice_witness:
  "fst (ingest_petrol_price
      \<lparr>raw_petrol_prices = [\<lparr>rp_date = 19, rp_petrol_price = 101, rp_source = ''manual''\<rparr>],
       raw_exogenous = []\<rparr> 20 (1025 / 10) ''web_scraper'') = True
   \<and> fst (ingest_petrol_price (snd (ingest_petrol_price
      \<lparr>raw_petrol_prices = [\<lparr>rp_date = 19, rp_petrol_price = 101, rp_source = ''manual''\<rparr>],
       raw_exogenous = []\<rparr> 20 (1025 / 10) ''web_scraper'')) 20 99 ''file_upload'') = False
   \<and> raw_petrol_prices (snd (ingest_petrol_price (snd (ingest_petrol_price
      \<lparr>raw_petrol_prices = [\<lparr>rp_date = 19, rp_petrol_price = 101, rp_source = ''manual''\<rparr>],
       raw_exogenous = []\<rparr> 20 (1025 / 10) ''web_scraper'')) 20 99 ''file_upload''))
     = [\<lparr>rp_date = 19, rp_petrol_price = 101, rp_source = ''manual''\<rparr>,
        \<lparr>rp_date = 20, rp_petrol_price = 1025 / 10, rp_source = ''web_scraper''\<rparr>]"
  using ingest_petrol_price_twice
    [of 20 "\<lparr>raw_petrol_prices =
         [\<lparr>rp_date = 19, rp_petrol_price = 101, rp_source = ''manual''\<rparr>],
       raw_exogenous = []\<rparr>" "1025 / 10" "''web_scraper''" 99 "''file_upload''"]
  by (simp add: ingest_petrol_price_def)

subsection \<open>The clamp and the loop\<close>

lemma clamp_band:
  "\<exists>c. py_max (Fin 90) (py_min (Fin 150) raw) = Fin c \<and> 90 \<le> c \<and> c \<le> 150"
  by (cases raw) (auto simp: py_min_def py_max_def)

lemma round_half_even_bounds:
  assumes "of_int lo \<le> y" and "y \<le> of_int hi"
  shows "lo \<le> round_half_even y \<and> round_half_even y \<le> hi"
proof -
  have lo: "lo \<le> \<lfloor>y\<rfloor>" using assms(1) by (simp add: le_floor_iff)
  have hi: "\<lfloor>y\<rfloor> \<le> hi" using assms(2) by (simp add: floor_le_iff)
  show ?thesis
  proof (cases "\<lfloor>y\<rfloor> = hi")
    case True
    then have "y - of_int \<lfloor>y\<rfloor> \<le> 0" using assms(2) by simp
    then show ?thesis using lo True by (simp add: round_half_even_def Let_def)
  next
    case False
    then have "\<lfloor>y\<rfloor> + 1 \<le> hi" using hi by simp
    then show ?thesis using lo hi by (simp add: round_half_even_def Let_def)
  qed
qed

lemma round2_band:
  assumes "90 \<le> c" and "c \<le> 150"
  shows "\<exists>c'. py_round2 (Fin c) = Fin c' \<and> 90 \<le> c' \<and> c' \<le> 150"
proof -
  have "of_int 9000 \<le> c * 100" and "c * 100 \<le> of_int 15000" using assms by simp_all
  then have b: "9000 \<le> round_half_even (c * 100) \<and> round_half_even (c * 100) \<le> 15000"
    by (rule round_half_even_bounds)
  have "90 \<le> real_of_int (round_half_even (c * 100)) / 100"
    using b by simp
  moreover have "real_of_int (round_half_even (c * 100)) / 100 \<le> 150"
    using b by simp
  moreover have "py_round2 (Fin c) = Fin (real_of_int (round_half_even (c * 100)) / 100)"
    by simp
  ultimately show ?thesis by blast
qed

lemma forecast_step_fields:
  "predictions (forecast_step sc m st) = predictions st @
     [\<lparr>p_date = current_date st,
       predicted_price = py_round2 (py_max (Fin 90) (py_min (Fin 150)
         (m (sc [petrol_price (current_features st), lag_1 (current_features st),
                 lag_2 (current_features st), lag_7 (current_features st),
                 lag_14 (current_features st), rolling_7 (current_features st),
                 crude_oil_price (current_features st), inr_usd (current_features st)]))))\<rparr>]"
  "current_date (forecast_step sc m st) = current_date st + 1"
  by (simp_all add: forecast_step_def Let_def)

lemma forecast_loop_Suc_right:
  "forecast_loop sc m (Suc n) st = forecast_step sc m (forecast_loop sc m n st)"
  by (induction n arbitrary: st) simp_all


lemma forecast_step_band:
  assumes "\<forall>p\<in>set (predictions st). \<exists>c. predicted_price p = Fin c \<and> 90 \<le> c \<and> c \<le> 150"
  shows "\<forall>p\<in>set (predictions (forecast_step sc m st)).
           \<exists>c. predicted_price p = Fin c \<and> 90 \<le> c \<and> c \<le> 150"
proof -
  let ?raw = "m (sc [petrol_price (current_features st), lag_1 (current_features st),
                 lag_2 (current_features st), lag_7 (current_features st),
                 lag_14 (current_features st), rolling_7 (current_features st),
                 crude_oil_price (current_features st), inr_usd (current_features st)])"
  obtain c where c: "py_max (Fin 90) (py_min (Fin 150) ?raw) = Fin c" "90 \<le> c" "c \<le> 150"
    using clamp_band [of ?raw] by blast
  obtain c' where c': "py_round2 (Fin c) = Fin c'" "90 \<le> c'" "c' \<le> 150"
    using round2_band [OF c(2,3)] by blast
  show ?thesis
    using assms c c' by (auto simp: forecast_step_fields(1))
qed

lemma forecast_loop_band:
  "\<forall>p\<in>set (predictions st). \<exists>c. predicted_price p = Fin c \<and> 90 \<le> c \<and> c \<le> 150 \<Longrightarrow>
   \<forall>p\<in>set (predictions (forecast_loop sc m n st)).
     \<exists>c. predicted_price p = Fin c \<and> 90 \<le> c \<and> c \<le> 150"
proof (induction n arbitrary: st)
  case 0
  then show ?case by simp
next
  case (Suc n)
  have "\<forall>p\<in>set (predictions (forecast_step sc m st)).
          \<exists>c. predicted_price p = Fin c \<and> 90 \<le> c \<and> c \<le> 150"
    using Suc.prems by (rule forecast_step_band)
  then show ?case
    using Suc.IH [of "forecast_step sc m st"] by simp
qed

lemma run_forecast_band:
  "\<forall>p\<in>set (fr_predictions (run_forecast sc m v mets cf start h)).
     \<exists>c. predicted_price p = Fin c \<and> 90 \<le> c \<and> c \<le> 150"
  unfolding run_forecast_def Let_def
  using forecast_loop_band
    [of "\<lparr>current_features = cf, current_date = start, predictions = []\<rparr>" sc m "nat h"]
  by simp

lemma generate_forecast_Inr:
  assumes "generate_forecast e h mv ed = Inr result"
  shows "\<exists>sc m v mets cf start h'. result = run_forecast sc m v mets cf start h'"
  using assms unfolding generate_forecast_def Let_def
  by (auto split: option.splits prod.splits if_splits intro!: exI)

lemma forecast_loop_dates:
  "map p_date (predictions (forecast_loop sc m n st)) =
     map p_date (predictions st) @ map (\<lambda>i. current_date st + int i) [0..<n]"
proof (induction n arbitrary: st)
  case 0
  then show ?case by simp
next
  case (Suc n)
  have "map (\<lambda>i. current_date st + int i) [0..<Suc n] =
          current_date st # map (\<lambda>i. current_date st + 1 + int i) [0..<n]"
    by (simp add: map_upt_Suc del: upt_Suc)
  then show ?case
    using Suc.IH [of "forecast_step sc m st"]
    by (simp add: forecast_step_fields del: upt_Suc)
qed



lemma forecast_step_features:
  "current_features (forecast_step sc m st) =
     \<lparr>petrol_price = py_max (Fin 90) (py_min (Fin 150)
         (m (sc [petrol_price (current_features st), lag_1 (current_features st),
                 lag_2 (current_features st), lag_7 (current_features st),
                 lag_14 (current_features st), rolling_7 (current_features st),
                 crude_oil_price (current_features st), inr_usd (current_features st)]))),
      lag_1 = petrol_price (current_features st),
      lag_2 = lag_1 (current_features st),
      lag_7 = lag_2 (current_features st),
      lag_14 = lag_7 (current_features st),
      rolling_7 = pf_over (pf_add (pf_times (rolling_7 (current_features st)) 6)
         (py_max (Fin 90) (py_min (Fin 150)
         (m (sc [petrol_price (current_features st), lag_1 (current_features st),
                 lag_2 (current_features st), lag_7 (current_features st),
                 lag_14 (current_features st), rolling_7 (current_features st),
                 crude_oil_price (current_features st), inr_usd (current_features st)]))))) 7,
      crude_oil_price = crude_oil_price (current_features st),
      inr_usd = inr_usd (current_features st)\<rparr>"
  by (cases "current_features st") (simp add: forecast_step_def Let_def)

lemma generate_forecast_loaded:
  assumes "load_model_and_scaler (files e) (registry e) mv = Some (model, scaler, version, mets)"
      and "get_latest_features (feature_table e) = Some latest"
      and "end_date_truthy ed" and "target_date_of (strptime e) ed = Some d"
  shows "generate_forecast e h mv (Some ed) =
           (if d \<le> today e then Inl InvalidDateRange
            else Inr (run_forecast scaler model version mets (seed_features latest)
                        (today e + 1) (d - today e)))"
  using assms by (simp add: generate_forecast_def Let_def)


subsection \<open>The example data, evaluated\<close>

lemma demo_scaler_path:
  "str_replace ''.h5'' ''_scaler.pkl'' ''saved_models/model_v1.h5'' =
     ''saved_models/model_v1_scaler.pkl''"
  by (simp add: str_replace_def)

lemma demo_load:
  "load_model_and_scaler demo_files [demo_version ''v1'' 2 10] mv =
     (if mv = None \<or> mv = Some [] \<or> mv = Some ''v1'' then
     Some (demo_model, demo_scaler, ''v1'',
           \<lparr>m_rmse = Some 2, m_mae = Some 1, m_mape = Some 1\<rparr>) else None)"
  by (simp add: load_model_and_scaler_def query_model_record_def demo_version_def
        demo_scaler_path load_model_def pickle_load_def demo_files_def split: option.splits)

lemma demo_seed:
  "get_latest_features [demo_row] = Some (to_dict demo_row)"
  "seed_features (to_dict demo_row) =
     \<lparr>petrol_price = Fin 100, lag_1 = Fin 99, lag_2 = Fin 98, lag_7 = Fin 97,
      lag_14 = Fin 96, rolling_7 = Fin 98, crude_oil_price = Fin 80, inr_usd = Fin 84\<rparr>"
  by (simp_all add: get_latest_features_def seed_features_def to_dict_def demo_row_def
        float_if_truthy_def or_default_def)

lemma clamp_fin:
  "py_max (Fin 90) (py_min (Fin 150) (Fin x)) = Fin (max 90 (min 150 x))"
  by (simp add: py_min_def py_max_def max_def min_def)

lemma round2_int: "py_round2 (Fin (of_int n)) = Fin (of_int n)"
  by (simp add: round_half_even_def Let_def)

lemma demo_step:
  "forecast_step demo_scaler demo_model
     \<lparr>current_features = \<lparr>petrol_price = Fin (of_int a), lag_1 = l1, lag_2 = l2, lag_7 = l7,
         lag_14 = l14, rolling_7 = r7, crude_oil_price = co, inr_usd = iu\<rparr>,
      current_date = d, predictions = ps\<rparr> =
     \<lparr>current_features = \<lparr>petrol_price = Fin (of_int (max 90 (min 150 (a - 4)))),
         lag_1 = Fin (of_int a), lag_2 = l1, lag_7 = l2,
         lag_14 = l7,
         rolling_7 = pf_over (pf_add (pf_times r7 6) (Fin (of_int (max 90 (min 150 (a - 4)))))) 7,
         crude_oil_price = co, inr_usd = iu\<rparr>,
      current_date = d + 1,
      predictions = ps @ [\<lparr>p_date = d, predicted_price = Fin (of_int (max 90 (min 150 (a - 4))))\<rparr>]\<rparr>"
proof -
  have c: "py_max (Fin 90) (py_min (Fin 150) (pf_add (Fin (of_int a)) (Fin (- 4)))) =
        Fin (of_int (max 90 (min 150 (a - 4))))"
    by (simp add: clamp_fin max_def min_def)
  show ?thesis
    by (simp add: forecast_step_def demo_scaler_def demo_model_def Let_def c round2_int
          del: pf_add.simps py_round2.simps)
qed


lemma demo_forecast:
  "generate_forecast demo_env h mv ed =
     (if mv = None \<or> mv = Some [] \<or> mv = Some ''v1'' then
        (case ed of
           None \<Rightarrow> Inr (run_forecast demo_scaler demo_model ''v1''
                       \<lparr>m_rmse = Some 2, m_mae = Some 1, m_mape = Some 1\<rparr>
                       (seed_features (to_dict demo_row)) 101 h)
         | Some d \<Rightarrow>
             if \<not> end_date_truthy d then
               Inr (run_forecast demo_scaler demo_model ''v1''
                       \<lparr>m_rmse = Some 2, m_mae = Some 1, m_mape = Some 1\<rparr>
                       (seed_features (to_dict demo_row)) 101 h)
             else (case target_date_of demo_strptime d of
                     None \<Rightarrow> Inl InvalidDateFormat
                   | Some t \<Rightarrow>
                       if t \<le> 100 then Inl InvalidDateRange
                       else Inr (run_forecast demo_scaler demo_model ''v1''
                              \<lparr>m_rmse = Some 2, m_mae = Some 1, m_mape = Some 1\<rparr>
                              (seed_features (to_dict demo_row)) 101 (t - 100))))
      else Inl NoTrainedModel)"
  by (simp add: generate_forecast_def demo_env_def demo_load demo_seed(1) Let_def
        split: option.splits)

lemma demo_run_1:
  "run_forecast demo_scaler demo_model v mets (seed_features (to_dict demo_row)) 101 1 =
     \<lparr>fr_model_version = v, fr_horizon_days = 1,
      fr_predictions = [\<lparr>p_date = 101, predicted_price = Fin 96\<rparr>], fr_metrics = mets\<rparr>"
  using demo_step [of 100]
  by (simp add: run_forecast_def demo_seed(2) Let_def)

lemma demo_run_3:
  "run_forecast demo_scaler demo_model v mets (seed_features (to_dict demo_row)) 101 3 =
     \<lparr>fr_model_version = v, fr_horizon_days = 3,
      fr_predictions = [\<lparr>p_date = 101, predicted_price = Fin 96\<rparr>,
        \<lparr>p_date = 102, predicted_price = Fin 92\<rparr>,
        \<lparr>p_date = 103, predicted_price = Fin 90\<rparr>], fr_metrics = mets\<rparr>"
  using demo_step [of 100] demo_step [of 96] demo_step [of 92]
  by (simp add: run_forecast_def demo_seed(2) Let_def numeral_3_eq_3)

subsection \<open>Claims on the forecast\<close>

text \<open>
  C2 (as amended). A supplied end date strictly before tomorrow makes the forecast fail
  with no predictions; when a model loads and a seed row exists the failure is
  \<open>InvalidDateRange\<close>. When a model loads and a seed row exists, an end date equal to
  tomorrow is accepted and gives exactly one prediction, dated tomorrow.
\<close>

theorem end_date_before_tomorrow_rejected:
  assumes "end_date_truthy ed" and "target_date_of (strptime e) ed = Some d"
  shows "(d < today e + 1 \<longrightarrow>
            (\<exists>err. generate_forecast e h mv (Some ed) = Inl err)
          \<and> (load_model_and_scaler (files e) (registry e) mv \<noteq> None
               \<and> get_latest_features (feature_table e) \<noteq> None
              \<longrightarrow> generate_forecast e h mv (Some ed) = Inl InvalidDateRange))
       \<and> (d = today e + 1
            \<and> load_model_and_scaler (files e) (registry e) mv \<noteq> None
            \<and> get_latest_features (feature_table e) \<noteq> None
          \<longrightarrow> (\<exists>r p. generate_forecast e h mv (Some ed) = Inr r
                 \<and> fr_horizon_days r = 1 \<and> fr_predictions r = [p]
                 \<and> p_date p = today e + 1))"
proof (intro conjI impI)
  assume "d < today e + 1"
  then show "\<exists>err. generate_forecast e h mv (Some ed) = Inl err"
    using assms by (auto simp: generate_forecast_def Let_def split: option.splits)
next
  assume "d < today e + 1"
    and "load_model_and_scaler (files e) (registry e) mv \<noteq> None
         \<and> get_latest_features (feature_table e) \<noteq> None"
  then show "generate_forecast e h mv (Some ed) = Inl InvalidDateRange"
    using assms by (auto simp: generate_forecast_def Let_def split: option.splits)
next
  assume t: "d = today e + 1
            \<and> load_model_and_scaler (files e) (registry e) mv \<noteq> None
            \<and> get_latest_features (feature_table e) \<noteq> None"
  then obtain model scaler version mets latest
    where l: "load_model_and_scaler (files e) (registry e) mv =
                Some (model, scaler, version, mets)"
      and f: "get_latest_features (feature_table e) = Some latest"
    by auto
  have target: "target_date_of (strptime e) ed = Some (today e + 1)"
    using assms(2) t by simp
  have run: "generate_forecast e h mv (Some ed) =
          Inr (run_forecast scaler model version mets (seed_features latest) (today e + 1) 1)"
    using generate_forecast_loaded [OF l f assms(1) target, of h] by simp
  have "\<exists>p. fr_predictions (run_forecast scaler model version mets
       (seed_features latest) (today e + 1) 1) = [p] \<and> p_date p = today e + 1"
    by (simp add: run_forecast_def forecast_step_fields)
  moreover have "fr_horizon_days (run_forecast scaler model version mets
       (seed_features latest) (today e + 1) 1) = 1"
    by (simp add: run_forecast_def Let_def)
  ultimately show "\<exists>r p. generate_forecast e h mv (Some ed) = Inr r
                 \<and> fr_horizon_days r = 1 \<and> fr_predictions r = [p]
                 \<and> p_date p = today e + 1"
    unfolding run by blast
qed

theorem end_date_before_tomorrow_rejected_witness:
  "end_date_truthy (EndDate 100) \<and> target_date_of (strptime demo_env) (EndDate 100) = Some 100
   \<and> (100::int) < today demo_env + 1
   \<and> end_date_truthy (EndStr ''2026-11-04'')
   \<and> target_date_of (strptime demo_env) (EndStr ''2026-11-04'') = Some 101
   \<and> (101::int) = today demo_env + 1
   \<and> load_model_and_scaler (files demo_env) (registry demo_env) (Some ''v1'') \<noteq> None
   \<and> get_latest_features (feature_table demo_env) \<noteq> None
   \<and> generate_forecast demo_env 5 (Some ''v1'') (Some (EndDate 100)) = Inl InvalidDateRange
   \<and> generate_forecast demo_env 5 (Some ''v1'') (Some (EndStr ''2026-11-04'')) =
       Inr \<lparr>fr_model_version = ''v1'', fr_horizon_days = 1,
            fr_predictions = [\<lparr>p_date = 101, predicted_price = Fin 96\<rparr>],
            fr_metrics = \<lparr>m_rmse = Some 2, m_mae = Some 1, m_mape = Some 1\<rparr>\<rparr>"
proof -
  have run: "generate_forecast demo_env 5 (Some ''v1'') (Some (EndStr ''2026-11-04'')) =
       Inr \<lparr>fr_model_version = ''v1'', fr_horizon_days = 1,
            fr_predictions = [\<lparr>p_date = 101, predicted_price = Fin 96\<rparr>],
            fr_metrics = \<lparr>m_rmse = Some 2, m_mae = Some 1, m_mape = Some 1\<rparr>\<rparr>"
    by (simp add: demo_forecast demo_run_1 demo_strptime_def)
  have env: "today demo_env = 100" "strptime demo_env = demo_strptime"
      "load_model_and_scaler (files demo_env) (registry demo_env) (Some ''v1'') \<noteq> None"
      "get_latest_features (feature_table demo_env) \<noteq> None"
    by (simp_all add: demo_env_def demo_load demo_seed(1))
  have parse: "demo_strptime ''2026-11-04'' = Some 101"
    by (simp add: demo_strptime_def)
  show ?thesis
    using end_date_before_tomorrow_rejected [of "EndDate 100" demo_env 100 5 "Some ''v1''"]
      end_date_before_tomorrow_rejected
        [of "EndStr ''2026-11-04''" demo_env 101 5 "Some ''v1''"]
      run env parse
    by simp
qed

text \<open>
  C2 as stated fails: with today being day 100, the end date 101 (tomorrow) is not
  rejected; the forecast succeeds with one prediction.
\<close>

theorem end_date_tomorrow_accepted:
  "today demo_env + 1 = 101
   \<and> generate_forecast demo_env 7 None (Some (EndDate 101)) =
       Inr \<lparr>fr_model_version = ''v1'', fr_horizon_days = 1,
            fr_predictions = [\<lparr>p_date = 101, predicted_price = Fin 96\<rparr>],
            fr_metrics = \<lparr>m_rmse = Some 2, m_mae = Some 1, m_mape = Some 1\<rparr>\<rparr>"
  by (simp add: demo_forecast demo_run_1) (simp add: demo_env_def)

text \<open>
  C3. With a model that loads and a seed row, an end date equal to tomorrow gives exactly
  one prediction, dated tomorrow; an end date equal to today fails with
  \<open>InvalidDateRange\<close>.
\<close>

theorem forecast_horizon_law:
  assumes "load_model_and_scaler (files e) (registry e) mv = Some (model, scaler, version, mets)"
      and "get_latest_features (feature_table e) = Some latest"
      and "end_date_truthy ed_tomorrow"
      and "target_date_of (strptime e) ed_tomorrow = Some (today e + 1)"
      and "end_date_truthy ed_today"
      and "target_date_of (strptime e) ed_today = Some (today e)"
  shows "(\<exists>r p. generate_forecast e h mv (Some ed_tomorrow) = Inr r
             \<and> fr_horizon_days r = 1 \<and> fr_predictions r = [p] \<and> p_date p = today e + 1)
       \<and> generate_forecast e h mv (Some ed_today) = Inl InvalidDateRange"
proof
  have "generate_forecast e h mv (Some ed_tomorrow) =
          Inr (run_forecast scaler model version mets (seed_features latest) (today e + 1) 1)"
    using generate_forecast_loaded [OF assms(1,2,3,4), of h] by simp
  moreover have "\<exists>p. fr_predictions (run_forecast scaler model version mets
       (seed_features latest) (today e + 1) 1) = [p] \<and> p_date p = today e + 1"
    by (simp add: run_forecast_def forecast_step_fields)
  moreover have "fr_horizon_days (run_forecast scaler model version mets
       (seed_features latest) (today e + 1) 1) = 1"
    by (simp add: run_forecast_def Let_def)
  ultimately show "\<exists>r p. generate_forecast e h mv (Some ed_tomorrow) = Inr r
             \<and> fr_horizon_days r = 1 \<and> fr_predictions r = [p] \<and> p_date p = today e + 1"
    by blast
next
  show "generate_forecast e h mv (Some ed_today) = Inl InvalidDateRange"
    using generate_forecast_loaded [OF assms(1,2,5,6), of h] by simp
qed


theorem forecast_horizon_law_witness:
  "load_model_and_scaler (files demo_env) (registry demo_env) None =
      Some (demo_model, demo_scaler, ''v1'',
            \<lparr>m_rmse = Some 2, m_mae = Some 1, m_mape = Some 1\<rparr>)
   \<and> get_latest_features (feature_table demo_env) = Some (to_dict demo_row)
   \<and> target_date_of (strptime demo_env) (EndStr ''2026-11-04'') = Some (today demo_env + 1)
   \<and> target_date_of (strptime demo_env) (EndStr ''2026-11-03'') = Some (today demo_env)
   \<and> generate_forecast demo_env 30 None (Some (EndStr ''2026-11-04'')) =
       Inr \<lparr>fr_model_version = ''v1'', fr_horizon_days = 1,
            fr_predictions = [\<lparr>p_date = 101, predicted_price = Fin 96\<rparr>],
            fr_metrics = \<lparr>m_rmse = Some 2, m_mae = Some 1, m_mape = Some 1\<rparr>\<rparr>
   \<and> generate_forecast demo_env 30 None (Some (EndStr ''2026-11-03'')) = Inl InvalidDateRange"
proof -
  have l: "load_model_and_scaler (files demo_env) (registry demo_env) None =
      Some (demo_model, demo_scaler, ''v1'',
            \<lparr>m_rmse = Some 2, m_mae = Some 1, m_mape = Some 1\<rparr>)"
    by (simp add: demo_env_def demo_load)
  have f: "get_latest_features (feature_table demo_env) = Some (to_dict demo_row)"
    by (simp add: demo_env_def demo_seed(1))
  have t1: "target_date_of (strptime demo_env) (EndStr ''2026-11-04'') = Some (today demo_env + 1)"
    by (simp add: demo_env_def demo_strptime_def)
  have t0: "target_date_of (strptime demo_env) (EndStr ''2026-11-03'') = Some (today demo_env)"
    by (simp add: demo_env_def demo_strptime_def)
  have run: "generate_forecast demo_env 30 None (Some (EndStr ''2026-11-04'')) =
       Inr \<lparr>fr_model_version = ''v1'', fr_horizon_days = 1,
            fr_predictions = [\<lparr>p_date = 101, predicted_price = Fin 96\<rparr>],
            fr_metrics = \<lparr>m_rmse = Some 2, m_mae = Some 1, m_mape = Some 1\<rparr>\<rparr>"
    by (simp add: demo_forecast demo_run_1 demo_strptime_def)
  show ?thesis
    using forecast_horizon_law [OF l f _ t1 _ t0, of 30] l f t1 t0 run by simp
qed

text \<open>
  C4. Every price the loop emits is a finite value between 90 and 150, whatever the
  scaler and the network return (an infinity and a NaN included), at every pass and for
  every number of passes; so is every price of a successful forecast.
\<close>

theorem predicted_price_in_band:
  "(\<forall>p\<in>set (predictions (forecast_loop sc m n (st\<lparr>predictions := []\<rparr>))).
       \<exists>c. predicted_price p = Fin c \<and> 90 \<le> c \<and> c \<le> 150)
   \<and> (generate_forecast e h mv ed = Inr result \<longrightarrow>
        (\<forall>p\<in>set (fr_predictions result).
           \<exists>c. predicted_price p = Fin c \<and> 90 \<le> c \<and> c \<le> 150))"
proof
  show "\<forall>p\<in>set (predictions (forecast_loop sc m n (st\<lparr>predictions := []\<rparr>))).
       \<exists>c. predicted_price p = Fin c \<and> 90 \<le> c \<and> c \<le> 150"
    by (rule forecast_loop_band) simp
next
  show "generate_forecast e h mv ed = Inr result \<longrightarrow>
        (\<forall>p\<in>set (fr_predictions result).
           \<exists>c. predicted_price p = Fin c \<and> 90 \<le> c \<and> c \<le> 150)"
    using generate_forecast_Inr [of e h mv ed result] run_forecast_band by blast
qed


theorem predicted_price_in_band_witness:
  "generate_forecast demo_env 3 None None =
     Inr \<lparr>fr_model_version = ''v1'', fr_horizon_days = 3,
          fr_predictions = [\<lparr>p_date = 101, predicted_price = Fin 96\<rparr>,
            \<lparr>p_date = 102, predicted_price = Fin 92\<rparr>,
            \<lparr>p_date = 103, predicted_price = Fin 90\<rparr>],
          fr_metrics = \<lparr>m_rmse = Some 2, m_mae = Some 1, m_mape = Some 1\<rparr>\<rparr>
   \<and> (90::real) \<le> 96 \<and> (96::real) \<le> 150
   \<and> (90::real) \<le> 92 \<and> (92::real) \<le> 150
   \<and> (90::real) \<le> 90 \<and> (90::real) \<le> 150"
proof -
  have run: "generate_forecast demo_env 3 None None =
     Inr \<lparr>fr_model_version = ''v1'', fr_horizon_days = 3,
          fr_predictions = [\<lparr>p_date = 101, predicted_price = Fin 96\<rparr>,
            \<lparr>p_date = 102, predicted_price = Fin 92\<rparr>,
            \<lparr>p_date = 103, predicted_price = Fin 90\<rparr>],
          fr_metrics = \<lparr>m_rmse = Some 2, m_mae = Some 1, m_mape = Some 1\<rparr>\<rparr>"
    by (simp add: demo_forecast demo_run_3)
  show ?thesis
    using predicted_price_in_band [of demo_scaler demo_model 0 undefined demo_env 3 None None
      "\<lparr>fr_model_version = ''v1'', fr_horizon_days = 3,
          fr_predictions = [\<lparr>p_date = 101, predicted_price = Fin 96\<rparr>,
            \<lparr>p_date = 102, predicted_price = Fin 92\<rparr>,
            \<lparr>p_date = 103, predicted_price = Fin 90\<rparr>],
          fr_metrics = \<lparr>m_rmse = Some 2, m_mae = Some 1, m_mape = Some 1\<rparr>\<rparr>"] run
    by simp
qed

text \<open>
  C7 (as amended). When the registry query finds a record whose artifact file loads but
  whose scaler sidecar does not, the forecast fails with \<open>NoTrainedModel\<close>: the result
  it gives for a registry without any model.
\<close>

theorem missing_scaler_reports_no_model:
  assumes "query_model_record (registry e) mv = Some r"
      and "load_model (files e) (mr_model_path r) = Some model"
      and "pickle_load (files e) (str_replace ''.h5'' ''_scaler.pkl'' (mr_model_path r)) = None"
  shows "generate_forecast e h mv ed = Inl NoTrainedModel
       \<and> generate_forecast (e\<lparr>registry := []\<rparr>) h mv ed = Inl NoTrainedModel"
  using assms
  by (simp add: generate_forecast_def load_model_and_scaler_def query_model_record_def
        Let_def split: option.splits)


theorem missing_scaler_reports_no_model_witness:
  "query_model_record (registry (demo_env\<lparr>files := demo_files_without_scaler\<rparr>)) None =
      Some (demo_version ''v1'' 2 10)
   \<and> load_model demo_files_without_scaler (mr_model_path (demo_version ''v1'' 2 10)) =
      Some demo_model
   \<and> pickle_load demo_files_without_scaler
        (str_replace ''.h5'' ''_scaler.pkl'' (mr_model_path (demo_version ''v1'' 2 10))) = None
   \<and> generate_forecast (demo_env\<lparr>files := demo_files_without_scaler\<rparr>) 7 None None =
      Inl NoTrainedModel"
proof -
  have q: "query_model_record (registry (demo_env\<lparr>files := demo_files_without_scaler\<rparr>)) None =
      Some (demo_version ''v1'' 2 10)"
    by (simp add: demo_env_def query_model_record_def)
  have p: "mr_model_path (demo_version ''v1'' 2 10) = ''saved_models/model_v1.h5''"
    by (simp add: demo_version_def)
  have m: "load_model (files (demo_env\<lparr>files := demo_files_without_scaler\<rparr>))
        (mr_model_path (demo_version ''v1'' 2 10)) = Some demo_model"
    by (simp add: p load_model_def demo_files_without_scaler_def)
  have s: "pickle_load (files (demo_env\<lparr>files := demo_files_without_scaler\<rparr>))
        (str_replace ''.h5'' ''_scaler.pkl'' (mr_model_path (demo_version ''v1'' 2 10))) = None"
    by (simp add: p demo_scaler_path pickle_load_def demo_files_without_scaler_def)
  show ?thesis
    using missing_scaler_reports_no_model [OF q m s, of 7 None] q m s by simp
qed

text \<open>
  C7 as stated fails: version \<open>v1\<close> is registered and its artifact loads, the sidecar is
  missing, and the forecast returns the very error it returns for an empty registry.
\<close>

theorem missing_scaler_same_as_empty_registry:
  "find (\<lambda>r. mr_model_version r = ''v1'') (registry demo_env) = Some (demo_version ''v1'' 2 10)
   \<and> load_model demo_files_without_scaler ''saved_models/model_v1.h5'' = Some demo_model
   \<and> pickle_load demo_files_without_scaler ''saved_models/model_v1_scaler.pkl'' = None
   \<and> generate_forecast (demo_env\<lparr>files := demo_files_without_scaler\<rparr>) 7 (Some ''v1'') None
        = Inl NoTrainedModel
   \<and> generate_forecast (demo_env\<lparr>registry := []\<rparr>) 7 (Some ''v1'') None = Inl NoTrainedModel"
proof -
  have a: "find (\<lambda>r. mr_model_version r = ''v1'') (registry demo_env) =
      Some (demo_version ''v1'' 2 10)"
    by (simp add: demo_env_def demo_version_def)
  have b: "load_model demo_files_without_scaler ''saved_models/model_v1.h5'' = Some demo_model"
    by (simp add: load_model_def demo_files_without_scaler_def)
  have c: "pickle_load demo_files_without_scaler ''saved_models/model_v1_scaler.pkl'' = None"
    by (simp add: pickle_load_def demo_files_without_scaler_def)
  have p: "mr_model_path (demo_version ''v1'' 2 10) = ''saved_models/model_v1.h5''"
    by (simp add: demo_version_def)
  have d: "generate_forecast (demo_env\<lparr>files := demo_files_without_scaler\<rparr>) 7 (Some ''v1'') None
        = Inl NoTrainedModel"
    using a by (simp add: generate_forecast_def load_model_and_scaler_def
        query_model_record_def p b c demo_scaler_path)
  have e: "generate_forecast (demo_env\<lparr>registry := []\<rparr>) 7 (Some ''v1'') None =
      Inl NoTrainedModel"
    by (simp add: generate_forecast_def load_model_and_scaler_def query_model_record_def)
  show ?thesis using a b c d e by simp
qed

text \<open>
  C9. With an empty registry the prediction service returns the model-not-found failure
  and leaves the prediction log as it was.
\<close>

theorem empty_registry_no_log:
  assumes "registry e = []"
  shows "generate_prediction e logs h mv ed = (Inl NoTrainedModel, logs)"
  using assms
  by (simp add: generate_prediction_def generate_forecast_def load_model_and_scaler_def
        query_model_record_def split: option.splits)


theorem empty_registry_no_log_witness:
  "registry (demo_env\<lparr>registry := []\<rparr>) = []
   \<and> generate_prediction (demo_env\<lparr>registry := []\<rparr>)
        [\<lparr>pl_horizon_days = 7, pl_model_version = ''v0'', pl_predictions = []\<rparr>] 7 None None
      = (Inl NoTrainedModel,
         [\<lparr>pl_horizon_days = 7, pl_model_version = ''v0'', pl_predictions = []\<rparr>])"
  using empty_registry_no_log [of "demo_env\<lparr>registry := []\<rparr>"
      "[\<lparr>pl_horizon_days = 7, pl_model_version = ''v0'', pl_predictions = []\<rparr>]" 7 None None]
  by simp

text \<open>
  C5. Between the state before a pass of the loop and the state after it, at every pass
  of every horizon: the lags shift (\<open>lag_14\<close> takes \<open>lag_7\<close>, \<open>lag_7\<close> takes
  \<open>lag_2\<close>, \<open>lag_2\<close> takes \<open>lag_1\<close>, \<open>lag_1\<close> takes the price), the price
  becomes the clamped prediction, \<open>rolling_7\<close> becomes
  \<open>(rolling_7 * 6 + clamped) / 7\<close>, the exogenous values stay, and the date advances
  by one day.
\<close>

theorem forecast_step_rolls_state:
  "let st = forecast_loop sc m k st0;
       st' = forecast_loop sc m (Suc k) st0;
       cf = current_features st;
       cf' = current_features st';
       clamped = py_max (Fin 90) (py_min (Fin 150)
          (m (sc [petrol_price cf, lag_1 cf, lag_2 cf, lag_7 cf, lag_14 cf, rolling_7 cf,
                  crude_oil_price cf, inr_usd cf])))
   in lag_14 cf' = lag_7 cf \<and> lag_7 cf' = lag_2 cf \<and> lag_2 cf' = lag_1 cf
      \<and> lag_1 cf' = petrol_price cf \<and> petrol_price cf' = clamped
      \<and> rolling_7 cf' = pf_over (pf_add (pf_times (rolling_7 cf) 6) clamped) 7
      \<and> (\<forall>r. rolling_7 cf = Fin r \<longrightarrow>
            (\<exists>c. clamped = Fin c \<and> 90 \<le> c \<and> c \<le> 150
                 \<and> rolling_7 cf' = Fin ((r * 6 + c) / 7)))
      \<and> crude_oil_price cf' = crude_oil_price cf \<and> inr_usd cf' = inr_usd cf
      \<and> current_date st' = current_date st + 1"
proof -
  let ?st = "forecast_loop sc m k st0"
  let ?cf = "current_features ?st"
  let ?clamped = "py_max (Fin 90) (py_min (Fin 150)
          (m (sc [petrol_price ?cf, lag_1 ?cf, lag_2 ?cf, lag_7 ?cf, lag_14 ?cf, rolling_7 ?cf,
                  crude_oil_price ?cf, inr_usd ?cf])))"
  have next_state: "forecast_loop sc m (Suc k) st0 = forecast_step sc m ?st"
    by (rule forecast_loop_Suc_right)
  obtain c where c: "?clamped = Fin c" "90 \<le> c" "c \<le> 150"
    using clamp_band by blast
  have fin: "\<forall>r. rolling_7 ?cf = Fin r \<longrightarrow>
            (\<exists>c. ?clamped = Fin c \<and> 90 \<le> c \<and> c \<le> 150
                 \<and> rolling_7 (current_features (forecast_step sc m ?st))
                     = Fin ((r * 6 + c) / 7))"
  proof (intro allI impI)
    fix r
    assume r: "rolling_7 ?cf = Fin r"
    have "rolling_7 (current_features (forecast_step sc m ?st)) =
            pf_over (pf_add (pf_times (rolling_7 ?cf) 6) ?clamped) 7"
      by (simp add: forecast_step_features)
    also have "\<dots> = pf_over (pf_add (pf_times (rolling_7 ?cf) 6) (Fin c)) 7"
      by (simp only: c(1))
    also have "\<dots> = Fin ((r * 6 + c) / 7)"
      by (simp add: r)
    finally show "\<exists>c. ?clamped = Fin c \<and> 90 \<le> c \<and> c \<le> 150
                 \<and> rolling_7 (current_features (forecast_step sc m ?st))
                     = Fin ((r * 6 + c) / 7)"
      using c by blast
  qed
  show ?thesis
    unfolding Let_def next_state
    using fin by (simp add: forecast_step_features forecast_step_fields(2))
qed

theorem forecast_step_rolls_state_witness:
  "current_features (forecast_loop demo_scaler demo_model 1
       \<lparr>current_features = seed_features (to_dict demo_row), current_date = 101,
        predictions = []\<rparr>) =
     \<lparr>petrol_price = Fin 96, lag_1 = Fin 100, lag_2 = Fin 99, lag_7 = Fin 98,
      lag_14 = Fin 97, rolling_7 = Fin (684 / 7), crude_oil_price = Fin 80,
      inr_usd = Fin 84\<rparr>
   \<and> current_features (forecast_loop demo_scaler demo_model 2
       \<lparr>current_features = seed_features (to_dict demo_row), current_date = 101,
        predictions = []\<rparr>) =
     \<lparr>petrol_price = Fin 92, lag_1 = Fin 96, lag_2 = Fin 100, lag_7 = Fin 99,
      lag_14 = Fin 98, rolling_7 = Fin ((684 / 7 * 6 + 92) / 7), crude_oil_price = Fin 80,
      inr_usd = Fin 84\<rparr>
   \<and> current_date (forecast_loop demo_scaler demo_model 1
       \<lparr>current_features = seed_features (to_dict demo_row), current_date = 101,
        predictions = []\<rparr>) = 102
   \<and> current_date (forecast_loop demo_scaler demo_model 2
       \<lparr>current_features = seed_features (to_dict demo_row), current_date = 101,
        predictions = []\<rparr>) = 103"
  using forecast_step_rolls_state [of demo_scaler demo_model 1
       "\<lparr>current_features = seed_features (to_dict demo_row), current_date = 101,
        predictions = []\<rparr>"]
    demo_step [of 100] demo_step [of 96]
  by (simp add: demo_seed(2) numeral_2_eq_2)

lemma first_desc_map:
  assumes "\<And>x. key (f x) = key x"
  shows "first_desc key (map f xs) = map_option f (first_desc key xs)"
  by (induction xs) (auto simp: assms split: option.splits)

lemma float_if_truthy_null_if_zero: "float_if_truthy (null_if_zero v) = float_if_truthy v"
  by (cases v) (simp_all add: float_if_truthy_def null_if_zero_def)

lemma to_dict_zeros_as_null: "to_dict (zeros_as_null r) = to_dict r"
  by (simp add: to_dict_def zeros_as_null_def float_if_truthy_null_if_zero)

lemma get_latest_features_zeros_as_null:
  "get_latest_features (map zeros_as_null table) = get_latest_features table"
proof -
  have "first_desc row_date (map zeros_as_null table) =
          map_option zeros_as_null (first_desc row_date table)"
    by (rule first_desc_map) (simp add: zeros_as_null_def)
  then show ?thesis
    by (cases "first_desc row_date table")
       (simp_all add: get_latest_features_def to_dict_zeros_as_null)
qed

lemma float_if_truthy_zero: "float_if_truthy (Some 0) = None"
  by (simp add: float_if_truthy_def)

text \<open>
  C10 (as amended). A zero stored in one of the eight nullable numeric columns is read
  back as \<open>None\<close>; the forecast seed then takes the current price for a lag or rolling
  value and the fixed defaults 80 and 83 for the exogenous values; and replacing every
  such zero of the feature table by \<open>NULL\<close> changes no result of the forecast. The
  non-nullable \<open>petrol_price\<close> is read back as it is stored.
\<close>

theorem stored_zero_reads_back_null:
  "(row_lag_1 r = Some 0 \<longrightarrow> d_lag_1 (to_dict r) = None
        \<and> lag_1 (seed_features (to_dict r)) = Fin (row_petrol_price r))
   \<and> (row_lag_2 r = Some 0 \<longrightarrow> d_lag_2 (to_dict r) = None
        \<and> lag_2 (seed_features (to_dict r)) = Fin (row_petrol_price r))
   \<and> (row_lag_7 r = Some 0 \<longrightarrow> d_lag_7 (to_dict r) = None
        \<and> lag_7 (seed_features (to_dict r)) = Fin (row_petrol_price r))
   \<and> (row_lag_14 r = Some 0 \<longrightarrow> d_lag_14 (to_dict r) = None
        \<and> lag_14 (seed_features (to_dict r)) = Fin (row_petrol_price r))
   \<and> (row_rolling_7 r = Some 0 \<longrightarrow> d_rolling_7 (to_dict r) = None
        \<and> rolling_7 (seed_features (to_dict r)) = Fin (row_petrol_price r))
   \<and> (row_crude_oil_price r = Some 0 \<longrightarrow> d_crude_oil_price (to_dict r) = None
        \<and> crude_oil_price (seed_features (to_dict r)) = Fin 80)
   \<and> (row_inr_usd r = Some 0 \<longrightarrow> d_inr_usd (to_dict r) = None
        \<and> inr_usd (seed_features (to_dict r)) = Fin 83)
   \<and> (row_target r = Some 0 \<longrightarrow> d_target (to_dict r) = None)
   \<and> d_petrol_price (to_dict r) = Fin (row_petrol_price r)
   \<and> to_dict (zeros_as_null r) = to_dict r
   \<and> generate_forecast (e\<lparr>feature_table := map zeros_as_null (feature_table e)\<rparr>) h mv ed
       = generate_forecast e h mv ed"
proof -
  have readback: "\<And>v. v = Some 0 \<Longrightarrow> float_if_truthy v = None"
    by (simp add: float_if_truthy_zero)
  have same: "generate_forecast (e\<lparr>feature_table := map zeros_as_null (feature_table e)\<rparr>)
       h mv ed = generate_forecast e h mv ed"
    by (simp add: generate_forecast_def get_latest_features_zeros_as_null
          cong: option.case_cong if_cong)
  show ?thesis
    using same
    by (simp add: to_dict_zeros_as_null)
       (simp add: to_dict_def seed_features_def or_default_def readback)
qed

theorem stored_zero_reads_back_null_witness:
  "to_dict \<lparr>row_date = 41, row_petrol_price = 100, row_lag_1 = Some 0, row_lag_2 = Some 0,
      row_lag_7 = Some 0, row_lag_14 = Some 0, row_rolling_7 = Some 0,
      row_crude_oil_price = Some 0, row_inr_usd = Some 0, row_target = Some 0\<rparr> =
     \<lparr>d_date = 41, d_petrol_price = Fin 100, d_lag_1 = None, d_lag_2 = None, d_lag_7 = None,
      d_lag_14 = None, d_rolling_7 = None, d_crude_oil_price = None, d_inr_usd = None,
      d_target = None\<rparr>
   \<and> seed_features (to_dict \<lparr>row_date = 41, row_petrol_price = 100, row_lag_1 = Some 0,
      row_lag_2 = Some 0, row_lag_7 = Some 0, row_lag_14 = Some 0, row_rolling_7 = Some 0,
      row_crude_oil_price = Some 0, row_inr_usd = Some 0, row_target = Some 0\<rparr>) =
     \<lparr>petrol_price = Fin 100, lag_1 = Fin 100, lag_2 = Fin 100, lag_7 = Fin 100,
      lag_14 = Fin 100, rolling_7 = Fin 100, crude_oil_price = Fin 80, inr_usd = Fin 83\<rparr>"
  using stored_zero_reads_back_null [of "\<lparr>row_date = 41, row_petrol_price = 100,
      row_lag_1 = Some 0, row_lag_2 = Some 0, row_lag_7 = Some 0, row_lag_14 = Some 0,
      row_rolling_7 = Some 0, row_crude_oil_price = Some 0, row_inr_usd = Some 0,
      row_target = Some 0\<rparr>" demo_env 7 None None]
  by (simp add: to_dict_def seed_features_def float_if_truthy_def or_default_def)

text \<open>
  C10 as stated fails for the numeric field \<open>petrol_price\<close>: stored as zero, it is
  read back as the float zero, not as \<open>None\<close>, and the forecast is seeded with it.
\<close>

theorem zero_price_reads_back_zero:
  "row_petrol_price (demo_row\<lparr>row_petrol_price := 0\<rparr>) = 0
   \<and> d_petrol_price (to_dict (demo_row\<lparr>row_petrol_price := 0\<rparr>)) = Fin 0
   \<and> petrol_price (seed_features (to_dict (demo_row\<lparr>row_petrol_price := 0\<rparr>))) = Fin 0"
  by (simp add: to_dict_def seed_features_def)

subsection \<open>Best model by metric\<close>

lemma first_asc_mem: "first_asc nf key xs = Some y \<Longrightarrow> y \<in> set xs"
  by (induction xs arbitrary: y) (auto split: option.splits if_splits)

lemma first_asc_None: "first_asc nf key xs = None \<longleftrightarrow> xs = []"
  by (induction xs) (auto split: option.splits)

lemma first_asc_least:
  assumes "\<forall>x\<in>set xs. key x \<noteq> None" and "first_asc nf key xs = Some y"
  shows "\<forall>x\<in>set xs. \<exists>a b. key y = Some a \<and> key x = Some b \<and> a \<le> b"
  using assms
proof (induction xs arbitrary: y)
  case Nil
  then show ?case by simp
next
  case (Cons x xs)
  obtain a where a: "key x = Some a" using Cons.prems(1) by auto
  show ?case
  proof (cases "first_asc nf key xs")
    case None
    then have "xs = []" by (simp add: first_asc_None)
    then show ?thesis using Cons.prems(2) a by simp
  next
    case (Some z)
    have all: "\<forall>x\<in>set xs. key x \<noteq> None" using Cons.prems(1) by simp
    have ih: "\<forall>w\<in>set xs. \<exists>c b. key z = Some c \<and> key w = Some b \<and> c \<le> b"
      using Cons.IH [OF all Some] .
    have "z \<in> set xs" using Some by (rule first_asc_mem)
    then obtain c where c: "key z = Some c" using all by auto
    show ?thesis
    proof (cases "a \<le> c")
      case True
      then have "y = x" using Cons.prems(2) Some a c by simp
      then show ?thesis using ih a c True by fastforce
    next
      case False
      then have "y = z" using Cons.prems(2) Some a c by simp
      then show ?thesis using ih a c False by fastforce
    qed
  qed
qed

lemma best_answer_first_asc:
  assumes "models \<noteq> []" and "\<forall>r\<in>set models. col r \<noteq> None"
  shows "\<exists>best\<in>set models.
           fst (best_answer metric (first_asc nf col models)) = Some (model_to_dict best)
         \<and> (\<forall>r\<in>set models. \<exists>a b. col best = Some a \<and> col r = Some b \<and> a \<le> b)"
proof -
  obtain best where best: "first_asc nf col models = Some best"
    using assms(1) first_asc_None [of nf col models] by (cases "first_asc nf col models") auto
  have "best \<in> set models" using best by (rule first_asc_mem)
  moreover have "\<forall>r\<in>set models. \<exists>a b. col best = Some a \<and> col r = Some b \<and> a \<le> b"
    using assms(2) best by (rule first_asc_least)
  moreover have "fst (best_answer metric (first_asc nf col models)) = Some (model_to_dict best)"
    by (simp add: best best_answer_def)
  ultimately show ?thesis by blast
qed

text \<open>
  C8 (as amended). For a non-empty registry in which every version carries a value of the
  chosen metric (\<open>rmse\<close>, \<open>mae\<close> or \<open>mape\<close>), \<open>get_best_model\<close> returns the dictionary
  of a registered version whose value of that metric is the least. For any other metric
  name it returns \<open>None\<close> and logs the error \<open>Invalid metric\<close>.
\<close>

theorem get_best_model_minimum:
  "((metric, col) \<in> {(''rmse'', mr_rmse), (''mae'', mr_mae), (''mape'', mr_mape)}
      \<and> models \<noteq> [] \<and> (\<forall>r\<in>set models. col r \<noteq> None)
    \<longrightarrow> (\<exists>best\<in>set models.
           fst (get_best_model nf models metric) = Some (model_to_dict best)
         \<and> (\<forall>r\<in>set models. \<exists>a b. col best = Some a \<and> col r = Some b \<and> a \<le> b)))
   \<and> (metric \<notin> {''rmse'', ''mae'', ''mape''}
    \<longrightarrow> get_best_model nf models metric = (None, [LogError (''Invalid metric: '' @ metric)]))"
proof (intro conjI impI)
  assume h: "(metric, col) \<in> {(''rmse'', mr_rmse), (''mae'', mr_mae), (''mape'', mr_mape)}
      \<and> models \<noteq> [] \<and> (\<forall>r\<in>set models. col r \<noteq> None)"
  then have sel: "get_best_model nf models metric = best_answer metric (first_asc nf col models)"
    by (auto simp: get_best_model_def)
  show "\<exists>best\<in>set models.
           fst (get_best_model nf models metric) = Some (model_to_dict best)
         \<and> (\<forall>r\<in>set models. \<exists>a b. col best = Some a \<and> col r = Some b \<and> a \<le> b)"
    unfolding sel using h by (intro best_answer_first_asc) simp_all
next
  assume "metric \<notin> {''rmse'', ''mae'', ''mape''}"
  then show "get_best_model nf models metric = (None, [LogError (''Invalid metric: '' @ metric)])"
    by (simp add: get_best_model_def)
qed

lemma demo_three_versions:
  "first_asc nf mr_rmse [demo_version ''v1'' 5 10, demo_version ''v2'' 2 11,
      demo_version ''v3'' 8 12] = Some (demo_version ''v2'' 2 11)"
  by (simp add: demo_version_def)

theorem get_best_model_minimum_witness:
  "(''rmse'', mr_rmse) \<in> {(''rmse'', mr_rmse), (''mae'', mr_mae), (''mape'', mr_mape)}
   \<and> [demo_version ''v1'' 5 10, demo_version ''v2'' 2 11, demo_version ''v3'' 8 12] \<noteq> []
   \<and> map mr_rmse [demo_version ''v1'' 5 10, demo_version ''v2'' 2 11, demo_version ''v3'' 8 12]
        = [Some 5, Some 2, Some 8]
   \<and> fst (get_best_model True
        [demo_version ''v1'' 5 10, demo_version ''v2'' 2 11, demo_version ''v3'' 8 12] ''rmse'')
       = Some (model_to_dict (demo_version ''v2'' 2 11))
   \<and> ''r2'' \<noteq> ''rmse'' \<and> ''r2'' \<noteq> ''mae'' \<and> ''r2'' \<noteq> ''mape''
   \<and> get_best_model True
        [demo_version ''v1'' 5 10, demo_version ''v2'' 2 11, demo_version ''v3'' 8 12] ''r2''
       = (None, [LogError ''Invalid metric: r2''])"
proof -
  have m: "map mr_rmse [demo_version ''v1'' 5 10, demo_version ''v2'' 2 11,
      demo_version ''v3'' 8 12] = [Some 5, Some 2, Some 8]"
    by (simp add: demo_version_def)
  have best: "fst (get_best_model True
        [demo_version ''v1'' 5 10, demo_version ''v2'' 2 11, demo_version ''v3'' 8 12] ''rmse'')
       = Some (model_to_dict (demo_version ''v2'' 2 11))"
    by (simp add: get_best_model_def demo_three_versions best_answer_def
          del: first_asc.simps)
  have bad: "get_best_model True
        [demo_version ''v1'' 5 10, demo_version ''v2'' 2 11, demo_version ''v3'' 8 12] ''r2''
       = (None, [LogError ''Invalid metric: r2''])"
    using get_best_model_minimum [of "''r2''" mr_rmse
        "[demo_version ''v1'' 5 10, demo_version ''v2'' 2 11, demo_version ''v3'' 8 12]" True]
    by simp
  show ?thesis
    using get_best_model_minimum [of "''rmse''" mr_rmse
        "[demo_version ''v1'' 5 10, demo_version ''v2'' 2 11, demo_version ''v3'' 8 12]" True]
      m best bad
    by simp
qed

text \<open>
  C8 as stated fails on a registry with a version whose metric is \<open>NULL\<close>: under the
  default engine (nulls first) the version without an \<open>rmse\<close> is returned although
  another version has \<open>rmse\<close> 2; and when no version has the metric, either ordering
  returns a version that has no value of it.
\<close>

theorem get_best_model_null_metric:
  "mr_rmse ((demo_version ''v1'' 5 10)\<lparr>mr_rmse := None\<rparr>) = None
   \<and> mr_rmse (demo_version ''v2'' 2 11) = Some 2
   \<and> fst (get_best_model True
        [(demo_version ''v1'' 5 10)\<lparr>mr_rmse := None\<rparr>, demo_version ''v2'' 2 11] ''rmse'')
       = Some (model_to_dict ((demo_version ''v1'' 5 10)\<lparr>mr_rmse := None\<rparr>))
   \<and> md_rmse (model_to_dict ((demo_version ''v1'' 5 10)\<lparr>mr_rmse := None\<rparr>)) = None
   \<and> fst (get_best_model False [(demo_version ''v1'' 5 10)\<lparr>mr_rmse := None\<rparr>] ''rmse'')
       = Some (model_to_dict ((demo_version ''v1'' 5 10)\<lparr>mr_rmse := None\<rparr>))"
  by (simp add: get_best_model_def best_answer_def)
     (simp add: demo_version_def model_to_dict_def float_if_truthy_def)

subsection \<open>Feature trimming\<close>

lemma with_features_length: "length (with_features df) = length df"
  by (simp add: with_features_def Let_def)

lemma shift_defined:
  "(\<exists>y. shift n xs i = Some y) \<longleftrightarrow> 0 \<le> int i - n \<and> int i - n < int (length xs)"
  by (simp add: shift_def Let_def)

lemma rolling_mean_defined: "(\<exists>y. rolling_mean w xs i = Some y) \<longleftrightarrow> w \<le> i + 1"
  by (simp add: rolling_mean_def)

lemma with_features_nth:
  "i < length df \<Longrightarrow> with_features df ! i =
     \<lparr>f_date = c_date (df ! i), f_petrol_price = c_petrol_price (df ! i),
      f_source = c_source (df ! i),
      f_crude_oil_price = c_crude_oil_price (df ! i), f_inr_usd = c_inr_usd (df ! i),
      f_lag_1 = shift 1 (map c_petrol_price df) i, f_lag_2 = shift 2 (map c_petrol_price df) i,
      f_lag_7 = shift 7 (map c_petrol_price df) i,
      f_lag_14 = shift 14 (map c_petrol_price df) i,
      f_rolling_7 = rolling_mean 7 (map c_petrol_price df) i,
      f_target = shift (- 1) (map c_petrol_price df) i\<rparr>"
  by (simp add: with_features_def Let_def)

lemma with_features_crude:
  "r \<in> set (with_features df) \<Longrightarrow> \<exists>q\<in>set df. f_crude_oil_price r = c_crude_oil_price q"
  by (auto simp: with_features_def Let_def)

lemma create_all_features_no_crude:
  assumes "\<forall>q\<in>set df. c_crude_oil_price q = None"
  shows "create_all_features df = []"
proof -
  have "\<forall>r\<in>set (with_features (sort_key c_date df)). \<not> no_null r"
  proof
    fix r
    assume "r \<in> set (with_features (sort_key c_date df))"
    then obtain q where "q \<in> set (sort_key c_date df)"
        and "f_crude_oil_price r = c_crude_oil_price q"
      using with_features_crude by blast
    then have "f_crude_oil_price r = None" using assms by simp
    then show "\<not> no_null r" by (simp add: no_null_def)
  qed
  then show ?thesis
    by (simp add: create_all_features_def filter_empty_conv)
qed

lemma ffill_keeps_no_crude:
  "\<forall>q\<in>set df. c_crude_oil_price q = None \<Longrightarrow>
   \<forall>q\<in>set (ffill None li df). c_crude_oil_price q = None"
  by (induction df arbitrary: li) (auto simp: Let_def)

lemma drop_duplicates_subset: "set (drop_duplicates seen df) \<subseteq> set df"
  by (induction df arbitrary: seen) auto

lemma run_etl_no_exogenous:
  assumes "raw_exogenous db = []"
  shows "\<forall>q\<in>set (run_etl db start_date end_date source_filter). c_crude_oil_price q = None"
proof -
  let ?df = "extract_raw_data db start_date end_date source_filter"
  have ex: "\<forall>q\<in>set ?df. c_crude_oil_price q = None"
    using assms by (auto simp: extract_raw_data_def Let_def)
  have "\<forall>q\<in>set (standardize_dates (remove_duplicates ?df)). c_crude_oil_price q = None"
    using ex drop_duplicates_subset [of "[]" ?df]
    by (auto simp: standardize_dates_def remove_duplicates_def)
  then have "\<forall>q\<in>set (handle_missing_values (standardize_dates (remove_duplicates ?df))).
      c_crude_oil_price q = None"
    unfolding handle_missing_values_def by (intro ffill_keeps_no_crude)
  then show ?thesis
    using ex by (simp add: run_etl_def Let_def)
qed

text \<open>
  The trim law on a frame whose exogenous columns have no null: exactly the rows with
  fourteen rows above and one row below are kept.
\<close>

lemma no_null_with_features:
  assumes "\<forall>q\<in>set df. c_crude_oil_price q \<noteq> None \<and> c_inr_usd q \<noteq> None"
      and "i < length df"
  shows "no_null (with_features df ! i) \<longleftrightarrow> 14 \<le> i \<and> Suc i < length df"
proof -
  have "c_crude_oil_price (df ! i) \<noteq> None \<and> c_inr_usd (df ! i) \<noteq> None"
    using assms by simp
  then show ?thesis
    using assms(2)
    by (simp add: with_features_nth no_null_def shift_defined rolling_mean_defined) linarith
qed

lemma length_filter_window:
  "length (filter (\<lambda>i. 14 \<le> i \<and> Suc i < n) [0..<n]) = n - 15"
proof -
  have "set (filter (\<lambda>i. 14 \<le> i \<and> Suc i < n) [0..<n]) = {14..<n - 1}"
    by auto
  moreover have "distinct (filter (\<lambda>i. 14 \<le> i \<and> Suc i < n) [0..<n])"
    by simp
  ultimately have "length (filter (\<lambda>i. 14 \<le> i \<and> Suc i < n) [0..<n]) = card {14..<n - 1}"
    using distinct_card by metis
  then show ?thesis by simp
qed

lemma feature_trim_law:
  assumes "\<forall>q\<in>set df. c_crude_oil_price q \<noteq> None \<and> c_inr_usd q \<noteq> None"
  shows "length (create_all_features df) = length df - 15"
proof -
  let ?s = "sort_key c_date df"
  have all: "\<forall>q\<in>set ?s. c_crude_oil_price q \<noteq> None \<and> c_inr_usd q \<noteq> None"
    using assms by simp
  have "map (\<lambda>i. with_features ?s ! i) [0..<length (with_features ?s)] = with_features ?s"
    by (rule map_nth)
  then have idx: "with_features ?s = map (\<lambda>i. with_features ?s ! i) [0..<length ?s]"
    by (simp only: with_features_length)
  have "filter no_null (with_features ?s) =
          map (\<lambda>i. with_features ?s ! i)
            (filter (\<lambda>i. no_null (with_features ?s ! i)) [0..<length ?s])"
    by (subst idx) (simp add: filter_map comp_def)
  also have "filter (\<lambda>i. no_null (with_features ?s ! i)) [0..<length ?s] =
          filter (\<lambda>i. 14 \<le> i \<and> Suc i < length ?s) [0..<length ?s]"
    using no_null_with_features [OF all] by (intro filter_cong) auto
  finally have "length (create_all_features df) =
      length (filter (\<lambda>i. 14 \<le> i \<and> Suc i < length ?s) [0..<length ?s])"
    by (simp add: create_all_features_def)
  then show ?thesis
    by (simp add: length_filter_window)
qed

subsection \<open>The twenty-day scenario\<close>

lemma ingest_rows_fresh:
  assumes "distinct (map u_date rows)"
      and "set (map u_date rows) \<inter> rp_date ` set (raw_petrol_prices db) = {}"
  shows "fst (ingest_rows db rows ins dup) = (ins + length rows, dup)
       \<and> raw_exogenous (snd (ingest_rows db rows ins dup)) = raw_exogenous db
       \<and> map rp_date (raw_petrol_prices (snd (ingest_rows db rows ins dup))) =
           map rp_date (raw_petrol_prices db) @ map u_date rows"
  using assms
proof (induction rows arbitrary: db ins dup)
  case Nil
  then show ?case by simp
next
  case (Cons row rest)
  let ?src = "stored_source (u_source row)"
  let ?db' = "db\<lparr>raw_petrol_prices := raw_petrol_prices db @
       [\<lparr>rp_date = u_date row, rp_petrol_price = u_petrol_price row, rp_source = ?src\<rparr>]\<rparr>"
  have fresh: "u_date row \<notin> rp_date ` set (raw_petrol_prices db)"
    using Cons.prems(2) by auto
  have ing: "ingest_petrol_price db (u_date row) (u_petrol_price row) ?src = (True, ?db')"
    by (simp add: ingest_petrol_price_def find_fresh_date [OF fresh])
  have d: "distinct (map u_date rest)" using Cons.prems(1) by simp
  have disj: "set (map u_date rest) \<inter> rp_date ` set (raw_petrol_prices ?db') = {}"
    using Cons.prems by auto
  show ?case
    using Cons.IH [OF d disj, of "Suc ins" dup] by (simp add: ing)
qed

lemma twenty_days_dates: "map u_date twenty_days = map (\<lambda>i. 1 + int i) [0..<20]"
  by (simp add: twenty_days_def comp_def)

lemma twenty_days_distinct: "distinct (map u_date twenty_days)"
  unfolding twenty_days_dates by (simp add: distinct_map inj_on_def)

lemma twenty_days_ingested:
  "fst (ingest_from_dataframe empty_store twenty_days) = (20, 0, 20)
   \<and> raw_exogenous (snd (ingest_from_dataframe empty_store twenty_days)) = []
   \<and> map rp_date (raw_petrol_prices (snd (ingest_from_dataframe empty_store twenty_days))) =
        map (\<lambda>i. 1 + int i) [0..<20]"
proof -
  have disj: "set (map u_date twenty_days) \<inter> rp_date ` set (raw_petrol_prices empty_store) = {}"
    by (simp add: empty_store_def)
  have len: "length twenty_days = 20" by (simp add: twenty_days_def)
  show ?thesis
    using ingest_rows_fresh [OF twenty_days_distinct disj, of 0 0]
    by (simp add: ingest_from_dataframe_def split_beta len twenty_days_dates)
       (simp add: empty_store_def)
qed

lemma ffill_length: "length (ffill a b df) = length df"
  by (induction df arbitrary: a b) (simp_all add: Let_def)

lemma drop_duplicates_distinct:
  "distinct (map c_date df) \<Longrightarrow> set (map c_date df) \<inter> set seen = {} \<Longrightarrow>
   drop_duplicates seen df = df"
  by (induction df arbitrary: seen) auto

lemma extract_all_no_exogenous:
  assumes "raw_exogenous db = []"
  shows "extract_raw_data db None None ''combined'' =
           map (\<lambda>p. \<lparr>c_date = rp_date p, c_petrol_price = rp_petrol_price p,
                      c_source = rp_source p, c_crude_oil_price = None, c_inr_usd = None\<rparr>)
             (raw_petrol_prices db)"
  using assms
  by (simp add: extract_raw_data_def in_range_def source_matches_def Let_def)

lemma run_etl_length:
  assumes "raw_exogenous db = []" and "distinct (map rp_date (raw_petrol_prices db))"
  shows "length (run_etl db None None ''combined'') = length (raw_petrol_prices db)"
proof -
  let ?df = "extract_raw_data db None None ''combined''"
  have dates: "map c_date ?df = map rp_date (raw_petrol_prices db)"
    by (simp add: extract_all_no_exogenous [OF assms(1)] comp_def)
  have "remove_duplicates ?df = ?df"
    unfolding remove_duplicates_def
    by (rule drop_duplicates_distinct) (simp_all add: dates assms(2))
  then have "length (handle_missing_values (standardize_dates (remove_duplicates ?df))) =
      length ?df"
    by (simp add: handle_missing_values_def standardize_dates_def ffill_length)
  moreover have "length ?df = length (raw_petrol_prices db)"
    by (simp add: extract_all_no_exogenous [OF assms(1)])
  ultimately show ?thesis
    by (cases "?df = []") (simp_all add: run_etl_def Let_def)
qed

text \<open>
  C1 at the scenario of the claim. Twenty consecutive daily prices are ingested into an
  empty store (all twenty are inserted, no exogenous row exists); the ETL with the filter
  \<open>combined\<close> returns twenty rows; feature engineering returns no row at all, where the
  claim expects five: \<open>dropna()\<close> also drops every row whose exogenous columns are null.
\<close>

theorem twenty_days_no_feature_rows:
  "fst (ingest_from_dataframe empty_store twenty_days) = (20, 0, 20)
   \<and> length (run_etl (snd (ingest_from_dataframe empty_store twenty_days))
               None None ''combined'') = 20
   \<and> create_all_features (run_etl (snd (ingest_from_dataframe empty_store twenty_days))
        None None ''combined'') = []"
proof -
  let ?db = "snd (ingest_from_dataframe empty_store twenty_days)"
  have ex: "raw_exogenous ?db = []"
    using twenty_days_ingested by simp
  have dates: "map rp_date (raw_petrol_prices ?db) = map (\<lambda>i. 1 + int i) [0..<20]"
    using twenty_days_ingested by simp
  have "distinct (map rp_date (raw_petrol_prices ?db))"
    unfolding dates by (simp add: distinct_map inj_on_def)
  then have "length (run_etl ?db None None ''combined'') = length (raw_petrol_prices ?db)"
    using ex by (intro run_etl_length)
  moreover have "length (raw_petrol_prices ?db) = 20"
    using arg_cong [OF dates, of length] by simp
  moreover have "create_all_features (run_etl ?db None None ''combined'') = []"
    using run_etl_no_exogenous [OF ex] by (intro create_all_features_no_crude)
  ultimately show ?thesis
    using twenty_days_ingested by simp
qed

text \<open>
  The same twenty days with both exogenous values present on every row: feature
  engineering keeps the five rows that the trim law gives.
\<close>

lemma twenty_complete_rows_give_five:
  "length (create_all_features
     (map (\<lambda>i. \<lparr>c_date = 1 + int i, c_petrol_price = 100 + real i / 10,
                 c_source = ''file_upload'', c_crude_oil_price = Some 80,
                 c_inr_usd = Some 83\<rparr>) [0..<20])) = 5"
  by (subst feature_trim_law) simp_all

end
